theory Spec2Isabelle
  imports Main "HOL-Library.Char_ord" "HOL-Library.List_Lexorder"
begin

section \<open>Values that cross the logger's API\<close>

text \<open>
  Go's \<^verbatim>\<open>any\<close> values handed to \<^verbatim>\<open>WithField\<close> (and recovered from a panic) are
  strings, integers or booleans here; \<^verbatim>\<open>fmt.Sprintf("%v", value)\<close> prints a string as
  it is, an integer in decimal and a boolean as \<^verbatim>\<open>true\<close>/\<^verbatim>\<open>false\<close>.
\<close>

datatype any = AnyString string | AnyInt int | AnyBool bool

fun digits :: "nat \<Rightarrow> string" where
  "digits n =
     (if n < 10 then [char_of (48 + n)]
      else digits (n div 10) @ [char_of (48 + n mod 10)])"

declare digits.simps [simp del]

fun fmt_v :: "any \<Rightarrow> string" where
  "fmt_v (AnyString s) = s"
| "fmt_v (AnyInt i) = (if i < 0 then CHR ''-'' # digits (nat (- i)) else digits (nat i))"
| "fmt_v (AnyBool b) = (if b then ''true'' else ''false'')"

text \<open>A Go \<^verbatim>\<open>error\<close> is identified with the message its \<^verbatim>\<open>Error()\<close> method returns;
  the nil error is \<open>None\<close> of \<open>go_error option\<close>.\<close>

type_synonym go_error = string

text \<open>\<^verbatim>\<open>zap.Field\<close>, as built by \<^verbatim>\<open>zap.String\<close>, \<^verbatim>\<open>zap.Any\<close> and \<^verbatim>\<open>zap.Error\<close>.\<close>

datatype zap_field = ZapString string string | ZapAny string any | ZapError go_error

text \<open>\<^verbatim>\<open>attribute.KeyValue\<close>, as built by \<^verbatim>\<open>attribute.String\<close> and
  \<^verbatim>\<open>attribute.Float64\<close>. The only float the logger computes is the elapsed time
  \<^verbatim>\<open>time.Since(l.start).Seconds() * 1000\<close>; it is carried as the difference of the two
  clock readings, and no floating-point arithmetic is modelled.\<close>

datatype attr_value = AttrString string | AttrFloat64 int

datatype key_value = KeyValue (Key: string) (Value: attr_value)

subsection \<open>config.go\<close>

record Config =
  ServiceName :: string
  JobName :: string
  SentryDSN :: string
  SentryOrg :: string
  LokiURL :: string
  OtelCollector :: string
  EnableTracing :: bool
  EnableMetrics :: bool
  EnableSentry :: bool
  EnableLoki :: bool
  LogLevel :: string

subsection \<open>Handles of the collaborators\<close>

text \<open>
  The tracing backend issues spans; a span is known to the logger through its span
  context only (trace ID and span ID, already rendered as strings).
\<close>

record otel_span =
  spanTraceID :: string
  spanSpanID :: string

datatype zap_logger = ZapL
datatype tracer = Tracer string
datatype meter = Meter string
datatype int64_counter = Int64Counter meter string
datatype float64_histogram = Float64Histogram meter string

text \<open>The only \<^verbatim>\<open>Exporter\<close> of the package is \<^verbatim>\<open>defaultExporter{}\<close>.\<close>

datatype exporter = DefaultExporter

record LokiEntry =
  Labels :: "(string \<times> string) list"
  Message :: string

subsection \<open>Logger values, contexts, requests\<close>

text \<open>
  A \<^verbatim>\<open>*Eotel\<close> is an address into the heap of allocated loggers, or nil. A value of
  the interface type \<^verbatim>\<open>Logger\<close> is the nil interface, a \<^verbatim>\<open>*Eotel\<close> (possibly a nil
  pointer inside a non-nil interface), or a value of some other type implementing the
  exported interface. Every function of the package whose result type is
  \<^verbatim>\<open>Logger\<close> returns a \<^verbatim>\<open>*Eotel\<close>; the model returns that pointer, and
  \<open>EotelPtr p\<close> is the interface value around it.
\<close>

type_synonym ptr = "nat option"

datatype logger_val = NilLogger | EotelPtr ptr | OtherLogger nat

text \<open>
  A \<^verbatim>\<open>context.Context\<close> carries the value stored under \<^verbatim>\<open>loggerCtxKey{}\<close>
  (\<open>NilLogger\<close> when \<^verbatim>\<open>ctx.Value\<close> yields nil) and the span the tracer put there.
\<close>

record go_context =
  ctxLogger :: logger_val
  ctxSpan :: "otel_span option"

record gin_context =
  reqCtx :: go_context
  reqMethod :: string
  reqURLPath :: string
  ginFullPath :: string
  ginClientIP :: string
  reqUserAgent :: string

subsection \<open>The struct \<^verbatim>\<open>Eotel\<close>\<close>

text \<open>
  \<^verbatim>\<open>logger\<close>, \<^verbatim>\<open>tracer\<close>, \<^verbatim>\<open>meter\<close> and \<^verbatim>\<open>exporter\<close> are set by both
  constructors (\<^verbatim>\<open>New\<close>, \<^verbatim>\<open>Child\<close>); \<^verbatim>\<open>span\<close>, \<^verbatim>\<open>logCounter\<close>,
  \<^verbatim>\<open>durationHist\<close> and \<^verbatim>\<open>err\<close> are interface values that a constructor may leave nil.
  The field \<^verbatim>\<open>fields\<close> is written \<open>fields'\<close> (the plain name is taken by the record
  package).
\<close>

record Eotel =
  ctx :: go_context
  logger :: zap_logger
  tracer :: tracer
  meter :: meter
  span :: "otel_span option"
  logCounter :: "int64_counter option"
  durationHist :: "float64_histogram option"
  fields' :: "zap_field list"
  attrs :: "key_value list"
  err :: "go_error option"
  name :: string
  start :: int
  exporter :: exporter

section \<open>The world: heap, globals, and the calls that reach the collaborators\<close>

datatype effect =
    is_ZapWrite: ZapWrite string string "zap_field list"
  | is_TracerStart: TracerStart tracer string otel_span
  | is_SpanSetAttributes: SpanSetAttributes otel_span "key_value list"
  | is_SpanRecordError: SpanRecordError otel_span go_error
  | is_SpanEnd: SpanEnd otel_span
  | is_CounterAdd: CounterAdd int64_counter int string
  | is_HistogramRecord: HistogramRecord float64_histogram int string
  | is_LokiEnqueue: LokiEnqueue LokiEntry
  | is_SentryCapture: SentryCapture go_error "(string \<times> string) list" "(string \<times> any) list"
  | is_GinAbort: GinAbort nat

text \<open>
  \<open>heap\<close> holds the allocated \<^verbatim>\<open>Eotel\<close> structs (an address is an index),
  \<open>globalCfg\<close> is the package variable of that name, \<open>issued\<close> counts the spans the
  tracing backend has handed out, \<open>clock\<close> is what \<^verbatim>\<open>time.Now()\<close> reads, and
  \<open>trace\<close> lists, oldest first, every call that reached a collaborator.
\<close>

record world =
  globalCfg :: Config
  heap :: "Eotel list"
  issued :: nat
  clock :: int
  trace :: "effect list"

text \<open>
  A call returns, panics, or ends the process. A nil-pointer or nil-interface
  dereference is the run-time panic \<open>NilDereference\<close>. Go has no dangling pointers;
  an address beyond the heap is treated like nil.
\<close>

datatype fault = NilDereference | PanicValue any

datatype 'a outcome = Returned 'a | Panicked fault | Exited int

type_synonym 'a action = "world \<Rightarrow> 'a outcome \<times> world"

definition ret :: "'a \<Rightarrow> 'a action" where
  "ret x w = (Returned x, w)"

definition and_then :: "'a action \<Rightarrow> ('a \<Rightarrow> 'b action) \<Rightarrow> 'b action" where
  "and_then m f w =
     (case m w of
        (Returned x, w') \<Rightarrow> f x w'
      | (Panicked p, w') \<Rightarrow> (Panicked p, w')
      | (Exited c, w') \<Rightarrow> (Exited c, w'))"

definition emit :: "effect \<Rightarrow> unit action" where
  "emit ev w = (Returned (), w\<lparr>trace := trace w @ [ev]\<rparr>)"

definition deref :: "ptr \<Rightarrow> Eotel action" where
  "deref l w =
     (case l of
        None \<Rightarrow> (Panicked NilDereference, w)
      | Some a \<Rightarrow>
          if a < length (heap w) then (Returned (heap w ! a), w)
          else (Panicked NilDereference, w))"

definition modify :: "ptr \<Rightarrow> (Eotel \<Rightarrow> Eotel) \<Rightarrow> unit action" where
  "modify l f w =
     (case l of
        None \<Rightarrow> (Panicked NilDereference, w)
      | Some a \<Rightarrow>
          if a < length (heap w) then (Returned (), w\<lparr>heap := (heap w)[a := f (heap w ! a)]\<rparr>)
          else (Panicked NilDereference, w))"

definition alloc :: "Eotel \<Rightarrow> ptr action" where
  "alloc e w = (Returned (Some (length (heap w))), w\<lparr>heap := heap w @ [e]\<rparr>)"

definition timeNow :: "int action" where
  "timeNow w = (Returned (clock w), w)"

definition getCfg :: "Config action" where
  "getCfg w = (Returned (globalCfg w), w)"


section \<open>Calls into the collaborators\<close>

text \<open>
  \<^verbatim>\<open>tracer.Start(ctx, name)\<close>: the backend issues a new span; it belongs to the trace of
  the span found in \<open>ctx\<close>, or opens a trace of its own; the returned context carries
  the new span and everything else \<open>ctx\<close> carried. The backend numbers its spans, and
  the IDs of span number \<open>n\<close> are printed as the decimal digits of \<open>n\<close>.
\<close>

definition tracerStart :: "tracer \<Rightarrow> go_context \<Rightarrow> string \<Rightarrow> (go_context \<times> otel_span) action" where
  "tracerStart t c nm w =
     (let n = issued w;
          sp = \<lparr>spanTraceID = (case ctxSpan c of None \<Rightarrow> digits n | Some p \<Rightarrow> spanTraceID p),
                spanSpanID = digits n\<rparr>
      in (Returned (c\<lparr>ctxSpan := Some sp\<rparr>, sp),
          w\<lparr>issued := Suc n, trace := trace w @ [TracerStart t nm sp]\<rparr>))"

text \<open>
  The zap logger's \<^verbatim>\<open>Info\<close>, \<^verbatim>\<open>Error\<close>, \<^verbatim>\<open>Debug\<close> and \<^verbatim>\<open>Warn\<close> hand the
  entry to the backend and return; \<open>ZapWrite\<close> records that call with the method's
  level, the message and the fields (what zap's own level filter then does with the
  entry is not part of this program). Its \<^verbatim>\<open>Fatal\<close> is documented by zap as: logs
  the message, "then calls os.Exit(1)"; the call does not come back.
\<close>

definition zapLog :: "zap_logger \<Rightarrow> string \<Rightarrow> string \<Rightarrow> zap_field list \<Rightarrow> unit action" where
  "zapLog z lvl msg fs = emit (ZapWrite lvl msg fs)"

definition osExit :: "int \<Rightarrow> 'a action" where
  "osExit c w = (Exited c, w)"

definition zapFatal :: "zap_logger \<Rightarrow> string \<Rightarrow> zap_field list \<Rightarrow> unit action" where
  "zapFatal z msg fs = and_then (emit (ZapWrite ''fatal'' msg fs)) (\<lambda>_. osExit 1)"

text \<open>A method call on a nil interface value panics; on an instrument it records.\<close>

definition counterAdd :: "int64_counter option \<Rightarrow> int \<Rightarrow> string \<Rightarrow> unit action" where
  "counterAdd c n lvl w =
     (case c of
        None \<Rightarrow> (Panicked NilDereference, w)
      | Some i \<Rightarrow> emit (CounterAdd i n lvl) w)"

definition histogramRecord :: "float64_histogram option \<Rightarrow> int \<Rightarrow> string \<Rightarrow> unit action" where
  "histogramRecord h d lvl w =
     (case h of
        None \<Rightarrow> (Panicked NilDereference, w)
      | Some i \<Rightarrow> emit (HistogramRecord i d lvl) w)"

text \<open>
  \<^verbatim>\<open>defaultExporter.Send\<close> sends one \<^verbatim>\<open>LokiEntry\<close> on the package channel
  \<^verbatim>\<open>logChan\<close>; the labels are listed in the order of the map literal. (The channel is
  declared outside the files at hand; a send that has to wait is not modelled.)
  \<^verbatim>\<open>defaultExporter.CaptureError\<close> passes its arguments on to the package function
  \<^verbatim>\<open>CaptureError\<close>, the error-reporting collaborator.
\<close>

definition Send :: "exporter \<Rightarrow> string \<Rightarrow> string \<Rightarrow> string \<Rightarrow> string \<Rightarrow> unit action" where
  "Send d level msg traceID spanID =
     and_then getCfg (\<lambda>cfg.
       emit (LokiEnqueue
         \<lparr>Labels = [(''level'', level), (''job'', JobName cfg), (''service'', ServiceName cfg),
                     (''trace_id'', traceID), (''span_id'', spanID)],
          Message = msg\<rparr>))"

definition CaptureError ::
  "exporter \<Rightarrow> go_error \<Rightarrow> (string \<times> string) list \<Rightarrow> (string \<times> any) list \<Rightarrow> unit action" where
  "CaptureError d e tags extras = emit (SentryCapture e tags extras)"

section \<open>logger.go\<close>

text \<open>
  \<^verbatim>\<open>initMetrics\<close> drops the errors of \<^verbatim>\<open>m.Int64Counter\<close> and
  \<^verbatim>\<open>m.Float64Histogram\<close>; the meter of the OpenTelemetry API hands out an instrument
  (a working or a no-op one) for either name.
\<close>

definition initMetrics :: "meter \<Rightarrow> int64_counter option \<times> float64_histogram option" where
  "initMetrics m = (Some (Int64Counter m ''log_total''), Some (Float64Histogram m ''log_duration_ms''))"

definition New :: "go_context \<Rightarrow> string \<Rightarrow> ptr action" where
  "New c nm =
     and_then getCfg (\<lambda>cfg.
     and_then timeNow (\<lambda>t.
       let m = Meter (ServiceName cfg);
           (c0, h0) = initMetrics m
       in alloc \<lparr>ctx = c, logger = ZapL, tracer = Tracer (ServiceName cfg), meter = m,
                 span = None, logCounter = c0, durationHist = h0, fields' = [], attrs = [],
                 err = None, name = nm, start = t, exporter = DefaultExporter\<rparr>))"

definition Inject :: "ptr \<Rightarrow> go_context \<Rightarrow> logger_val \<Rightarrow> go_context" where
  "Inject l c lg = c\<lparr>ctxLogger := lg\<rparr>"

text \<open>
  \<^verbatim>\<open>val != nil\<close> fails for \<open>NilLogger\<close>; the type assertion \<^verbatim>\<open>val.(*Eotel)\<close>
  succeeds for \<open>EotelPtr\<close> only, whatever the pointer inside.
\<close>

definition FromContext :: "ptr \<Rightarrow> go_context \<Rightarrow> string \<Rightarrow> ptr action" where
  "FromContext l c nm =
     (case ctxLogger c of
        EotelPtr lg \<Rightarrow> ret lg
      | NilLogger \<Rightarrow> New c nm
      | OtherLogger i \<Rightarrow> New c nm)"

definition FromGin :: "ptr \<Rightarrow> gin_context \<Rightarrow> string \<Rightarrow> ptr action" where
  "FromGin l c nm = FromContext l (reqCtx c) nm"

definition InjectToGin :: "ptr \<Rightarrow> gin_context \<Rightarrow> logger_val \<Rightarrow> gin_context" where
  "InjectToGin l c lg = c\<lparr>reqCtx := Inject l (reqCtx c) lg\<rparr>"

definition WithField :: "ptr \<Rightarrow> string \<Rightarrow> any \<Rightarrow> ptr action" where
  "WithField l key v =
     and_then (modify l (\<lambda>e. e\<lparr>fields' := fields' e @ [ZapAny key v]\<rparr>)) (\<lambda>_.
     and_then (modify l (\<lambda>e. e\<lparr>attrs := attrs e @ [KeyValue key (AttrString (fmt_v v))]\<rparr>)) (\<lambda>_.
     ret l))"

text \<open>
  \<^verbatim>\<open>WithFields\<close> ranges over a Go map; the list is the map's entries in the order the
  range statement happens to yield them. \<open>WithField_calls\<close> is the loop, that is the
  calls \<^verbatim>\<open>l.WithField(k1, v1); l.WithField(k2, v2); ...\<close> one after the other.
\<close>

fun WithField_calls :: "ptr \<Rightarrow> (string \<times> any) list \<Rightarrow> unit action" where
  "WithField_calls l [] = ret ()"
| "WithField_calls l (kv # m) =
     and_then (WithField l (fst kv) (snd kv)) (\<lambda>_. WithField_calls l m)"

definition WithFields :: "ptr \<Rightarrow> (string \<times> any) list \<Rightarrow> ptr action" where
  "WithFields l m = and_then (WithField_calls l m) (\<lambda>_. ret l)"

definition WithError :: "ptr \<Rightarrow> go_error option \<Rightarrow> ptr action" where
  "WithError l er =
     (case er of
        None \<Rightarrow> ret l
      | Some x \<Rightarrow>
          and_then (modify l (\<lambda>e. e\<lparr>err := Some x\<rparr>)) (\<lambda>_.
          and_then (modify l (\<lambda>e. e\<lparr>fields' := fields' e @ [ZapError x]\<rparr>)) (\<lambda>_.
          and_then (modify l (\<lambda>e. e\<lparr>attrs := attrs e @ [KeyValue ''error'' (AttrString x)]\<rparr>)) (\<lambda>_.
          and_then (deref l) (\<lambda>e.
          and_then (CaptureError (exporter e) x [] [(''error'', AnyString x)]) (\<lambda>_.
          ret l))))))"

definition Child :: "ptr \<Rightarrow> string \<Rightarrow> ptr action" where
  "Child l nm =
     and_then (deref l) (\<lambda>e.
     and_then (tracerStart (tracer e) (ctx e) nm) (\<lambda>(c, sp).
     and_then timeNow (\<lambda>t.
       alloc \<lparr>ctx = c, logger = logger e, tracer = tracer e, meter = meter e,
              span = Some sp, logCounter = None, durationHist = None, fields' = [], attrs = [],
              err = None, name = [], start = t, exporter = exporter e\<rparr>)))"

definition startSpanIfNeeded :: "ptr \<Rightarrow> unit action" where
  "startSpanIfNeeded l =
     and_then (deref l) (\<lambda>e.
       case span e of
         Some sp \<Rightarrow> ret ()
       | None \<Rightarrow>
           and_then (tracerStart (tracer e) (ctx e) (name e)) (\<lambda>(c, sp).
             modify l (\<lambda>e. e\<lparr>ctx := c, span := Some sp\<rparr>)))"

text \<open>
  \<^verbatim>\<open>sort.SliceStable\<close> with the comparison \<^verbatim>\<open>string(Key_i) < string(Key_j)\<close> is a
  stable sort by key under the bytewise order of Go strings: \<open>sort_key Key\<close>.
\<close>

definition endSpan :: "ptr \<Rightarrow> string \<Rightarrow> string \<Rightarrow> unit action" where
  "endSpan l msg level =
     and_then (deref l) (\<lambda>e0.
     and_then timeNow (\<lambda>t.
       let durationMs = t - start e0 in
       and_then (modify l (\<lambda>e. e\<lparr>attrs := attrs e @
                   [KeyValue ''log.message'' (AttrString msg),
                    KeyValue ''log.level'' (AttrString level),
                    KeyValue ''duration_ms'' (AttrFloat64 durationMs)]\<rparr>)) (\<lambda>_.
       and_then (modify l (\<lambda>e. e\<lparr>attrs := sort_key Key (attrs e)\<rparr>)) (\<lambda>_.
       and_then (deref l) (\<lambda>e.
       and_then (case span e of
                   None \<Rightarrow> ret ()
                 | Some sp \<Rightarrow>
                     and_then (emit (SpanSetAttributes sp (attrs e))) (\<lambda>_.
                     and_then (case err e of
                                 None \<Rightarrow> ret ()
                               | Some x \<Rightarrow> emit (SpanRecordError sp x)) (\<lambda>_.
                     emit (SpanEnd sp)))) (\<lambda>_.
       and_then (counterAdd (logCounter e) 1 level) (\<lambda>_.
       histogramRecord (durationHist e) durationMs level)))))))"

text \<open>
  \<^verbatim>\<open>l.span.SpanContext()\<close> dereferences the span, which \<^verbatim>\<open>startSpanIfNeeded\<close> has
  just made non-nil. The \<^verbatim>\<open>switch\<close> has no default: another level writes nothing.
\<close>

definition log :: "ptr \<Rightarrow> string \<Rightarrow> string \<Rightarrow> unit action" where
  "log l level msg =
     and_then (startSpanIfNeeded l) (\<lambda>_.
     and_then (deref l) (\<lambda>e.
     and_then getCfg (\<lambda>cfg.
       case span e of
         None \<Rightarrow> (\<lambda>w. (Panicked NilDereference, w))
       | Some sc \<Rightarrow>
           let traceID = spanTraceID sc;
               fs = [ZapString ''trace_id'' traceID,
                     ZapString ''span_id'' (spanSpanID sc),
                     ZapString ''job'' (JobName cfg),
                     ZapString ''service'' (ServiceName cfg),
                     ZapString ''level'' level] @ fields' e
           in
           and_then (if level = ''info'' then zapLog (logger e) ''info'' msg fs
                     else if level = ''error'' then zapLog (logger e) ''error'' msg fs
                     else if level = ''debug'' then zapLog (logger e) ''debug'' msg fs
                     else if level = ''warn'' then zapLog (logger e) ''warn'' msg fs
                     else if level = ''fatal'' then zapFatal (logger e) msg fs
                     else ret ()) (\<lambda>_.
           and_then (if EnableLoki cfg then Send (exporter e) level msg traceID (spanSpanID sc)
                     else ret ()) (\<lambda>_.
           endSpan l msg level)))))"

definition Info :: "ptr \<Rightarrow> string \<Rightarrow> unit action" where
  "Info l msg = log l ''info'' msg"

definition Error :: "ptr \<Rightarrow> string \<Rightarrow> unit action" where
  "Error l msg = log l ''error'' msg"

definition Debug :: "ptr \<Rightarrow> string \<Rightarrow> unit action" where
  "Debug l msg = log l ''debug'' msg"

definition Warn :: "ptr \<Rightarrow> string \<Rightarrow> unit action" where
  "Warn l msg = log l ''warn'' msg"

definition Fatal :: "ptr \<Rightarrow> string \<Rightarrow> unit action" where
  "Fatal l msg =
     and_then (log l ''fatal'' msg) (\<lambda>_.
     and_then (deref l) (\<lambda>e.
     and_then (case span e of None \<Rightarrow> ret () | Some sp \<Rightarrow> emit (SpanEnd sp)) (\<lambda>_.
     osExit 1)))"


text \<open>
  The five emission methods of the interface, indexed by severity, and the level
  string each one passes to \<^verbatim>\<open>log\<close>.
\<close>

datatype severity = SevInfo | SevError | SevDebug | SevWarn | SevFatal

fun severity_string :: "severity \<Rightarrow> string" where
  "severity_string SevInfo = ''info''"
| "severity_string SevError = ''error''"
| "severity_string SevDebug = ''debug''"
| "severity_string SevWarn = ''warn''"
| "severity_string SevFatal = ''fatal''"

fun emission :: "severity \<Rightarrow> ptr \<Rightarrow> string \<Rightarrow> unit action" where
  "emission SevInfo = Info"
| "emission SevError = Error"
| "emission SevDebug = Debug"
| "emission SevWarn = Warn"
| "emission SevFatal = Fatal"

text \<open>
  \<^verbatim>\<open>RecoverPanic(c)\<close> returns a closure; \<open>RecoverPanic l c\<close> is that closure, a
  function of what its \<^verbatim>\<open>recover()\<close> yields (\<open>None\<close> with no panic in flight).
  \<^verbatim>\<open>%v\<close> of a recovered run-time error prints its message.
\<close>

fun fmt_fault :: "fault \<Rightarrow> string" where
  "fmt_fault NilDereference = ''runtime error: invalid memory address or nil pointer dereference''"
| "fmt_fault (PanicValue v) = fmt_v v"

definition RecoverPanic :: "ptr \<Rightarrow> gin_context \<Rightarrow> fault option \<Rightarrow> unit action" where
  "RecoverPanic l c recovered =
     (case recovered of
        None \<Rightarrow> ret ()
      | Some r \<Rightarrow>
          let er = ''panic: '' @ fmt_fault r in
          and_then (FromGin l c ''panic'') (\<lambda>lg.
          let lg' = (if EotelPtr lg = NilLogger then l else lg) in
          and_then (WithError lg' (Some er)) (\<lambda>lg2.
          and_then (Error lg2 ''unhandled panic'') (\<lambda>_.
          emit (GinAbort 500)))))"

section \<open>middleware.go\<close>

text \<open>
  \<^verbatim>\<open>defer d\<close> in front of a body, for a deferred call \<open>d\<close> that does not itself call
  \<^verbatim>\<open>recover()\<close>: \<open>d\<close> runs when the body returns and when it panics, the panic then goes
  on to the caller; nothing runs once the process has exited.
\<close>

definition deferred :: "unit action \<Rightarrow> 'a action \<Rightarrow> 'a action" where
  "deferred d body w =
     (case body w of
        (Exited n, w') \<Rightarrow> (Exited n, w')
      | (Returned x, w') \<Rightarrow>
          (case d w' of
             (Returned u, w'') \<Rightarrow> (Returned x, w'')
           | (Panicked q, w'') \<Rightarrow> (Panicked q, w'')
           | (Exited n, w'') \<Rightarrow> (Exited n, w''))
      | (Panicked p, w') \<Rightarrow>
          (case d w' of
             (Returned u, w'') \<Rightarrow> (Panicked p, w'')
           | (Panicked q, w'') \<Rightarrow> (Panicked q, w'')
           | (Exited n, w'') \<Rightarrow> (Exited n, w'')))"

text \<open>A call whose result is dropped.\<close>

definition discard :: "'a \<Rightarrow> unit action" where
  "discard x = ret ()"

text \<open>
  \<open>next\<close> is \<^verbatim>\<open>c.Next()\<close>, the rest of the handler chain, run on the request as the
  middleware left it. The statement \<^verbatim>\<open>defer logger.RecoverPanic(c)\<close> defers the call
  of \<^verbatim>\<open>RecoverPanic\<close> itself: at exit the closure is built and dropped.
\<close>

definition Middleware :: "string \<Rightarrow> (gin_context \<Rightarrow> unit action) \<Rightarrow> gin_context \<Rightarrow> unit action" where
  "Middleware nm next c =
     and_then getCfg (\<lambda>cfg.
     and_then (tracerStart (Tracer (ServiceName cfg)) (reqCtx c)
                 (reqMethod c @ '' '' @ ginFullPath c)) (\<lambda>(ctx0, sp).
     deferred (emit (SpanEnd sp))
       (and_then (New ctx0 nm) (\<lambda>l0.
        and_then (WithField l0 ''method'' (AnyString (reqMethod c))) (\<lambda>l1.
        and_then (WithField l1 ''path'' (AnyString (reqURLPath c))) (\<lambda>l2.
        and_then (WithField l2 ''ip'' (AnyString (ginClientIP c))) (\<lambda>l3.
        and_then (WithField l3 ''ua'' (AnyString (reqUserAgent c))) (\<lambda>lg.
          let ctx1 = Inject lg ctx0 (EotelPtr lg);
              c1 = c\<lparr>reqCtx := ctx1\<rparr>
          in deferred (discard (RecoverPanic lg c1)) (next c1)))))))))"


section \<open>What a call did\<close>

text \<open>
  The calls that reached the collaborators while an action ran: what the action
  appended to the trace.
\<close>

definition events_of :: "'a action \<Rightarrow> world \<Rightarrow> effect list" where
  "events_of act w = drop (length (trace w)) (trace (snd (act w)))"

text \<open>
  The pieces of one emission, named so that the run of \<^verbatim>\<open>log\<close> on an allocated
  logger can be written down in closed form: the span the logger works with (its own,
  or the one the tracer issues now), the logger once that span is installed, what the
  tracer, the exporter, the span and the instruments are called with, and the sorted
  attribute list handed to the span.
\<close>

definition snapshot :: "Eotel \<Rightarrow> int \<Rightarrow> string \<Rightarrow> string \<Rightarrow> key_value list" where
  "snapshot e t msg level =
     sort_key Key (attrs e @ [KeyValue ''log.message'' (AttrString msg),
                              KeyValue ''log.level'' (AttrString level),
                              KeyValue ''duration_ms'' (AttrFloat64 (t - start e))])"

definition span_events :: "Eotel \<Rightarrow> int \<Rightarrow> string \<Rightarrow> string \<Rightarrow> effect list" where
  "span_events e t msg level =
     (case span e of
        None \<Rightarrow> []
      | Some sp \<Rightarrow>
          SpanSetAttributes sp (snapshot e t msg level) #
          (case err e of None \<Rightarrow> [] | Some x \<Rightarrow> [SpanRecordError sp x]) @ [SpanEnd sp])"

definition metric_events :: "Eotel \<Rightarrow> int \<Rightarrow> string \<Rightarrow> effect list" where
  "metric_events e t level =
     (case logCounter e of
        None \<Rightarrow> []
      | Some c \<Rightarrow>
          CounterAdd c 1 level #
          (case durationHist e of None \<Rightarrow> [] | Some h \<Rightarrow> [HistogramRecord h (t - start e) level]))"

definition metric_outcome :: "Eotel \<Rightarrow> unit outcome" where
  "metric_outcome e =
     (if logCounter e = None \<or> durationHist e = None then Panicked NilDereference else Returned ())"

definition next_span :: "go_context \<Rightarrow> world \<Rightarrow> otel_span" where
  "next_span c w =
     \<lparr>spanTraceID = (case ctxSpan c of None \<Rightarrow> digits (issued w) | Some p \<Rightarrow> spanTraceID p),
      spanSpanID = digits (issued w)\<rparr>"

definition log_span :: "Eotel \<Rightarrow> world \<Rightarrow> otel_span" where
  "log_span e w = (case span e of Some sp \<Rightarrow> sp | None \<Rightarrow> next_span (ctx e) w)"

definition started_logger :: "Eotel \<Rightarrow> world \<Rightarrow> Eotel" where
  "started_logger e w =
     (case span e of
        Some sp \<Rightarrow> e
      | None \<Rightarrow> e\<lparr>ctx := (ctx e)\<lparr>ctxSpan := Some (next_span (ctx e) w)\<rparr>,
                   span := Some (next_span (ctx e) w)\<rparr>)"

definition start_events :: "Eotel \<Rightarrow> world \<Rightarrow> effect list" where
  "start_events e w =
     (case span e of
        Some sp \<Rightarrow> []
      | None \<Rightarrow> [TracerStart (tracer e) (name e) (next_span (ctx e) w)])"

definition log_fields :: "Eotel \<Rightarrow> world \<Rightarrow> string \<Rightarrow> zap_field list" where
  "log_fields e w level =
     [ZapString ''trace_id'' (spanTraceID (log_span e w)),
      ZapString ''span_id'' (spanSpanID (log_span e w)),
      ZapString ''job'' (JobName (globalCfg w)),
      ZapString ''service'' (ServiceName (globalCfg w)),
      ZapString ''level'' level] @ fields' e"

definition export_events :: "Eotel \<Rightarrow> world \<Rightarrow> string \<Rightarrow> string \<Rightarrow> effect list" where
  "export_events e w level msg =
     (if EnableLoki (globalCfg w)
      then [LokiEnqueue
              \<lparr>Labels = [(''level'', level), (''job'', JobName (globalCfg w)),
                          (''service'', ServiceName (globalCfg w)),
                          (''trace_id'', spanTraceID (log_span e w)),
                          (''span_id'', spanSpanID (log_span e w))],
               Message = msg\<rparr>]
      else [])"

definition after_start :: "nat \<Rightarrow> world \<Rightarrow> world" where
  "after_start a w =
     w\<lparr>issued := (if span (heap w ! a) = None then Suc (issued w) else issued w),
       heap := (heap w)[a := started_logger (heap w ! a) w],
       trace := trace w @ start_events (heap w ! a) w\<rparr>"

definition nonfatal :: "string \<Rightarrow> bool" where
  "nonfatal level = (level = ''info'' \<or> level = ''error'' \<or> level = ''debug'' \<or> level = ''warn'')"

section \<open>A concrete process\<close>

text \<open>
  A configuration with every subsystem but Sentry switched on, the background
  context, the world before any logger exists, and the world in which
  \<^verbatim>\<open>New(context.Background(), "op")\<close> has been called once.
\<close>

definition cfg0 :: Config where
  "cfg0 = \<lparr>ServiceName = ''svc'', JobName = ''job'', SentryDSN = [], SentryOrg = [],
            LokiURL = [], OtelCollector = [], EnableTracing = True, EnableMetrics = True,
            EnableSentry = False, EnableLoki = True, LogLevel = ''info''\<rparr>"

definition background :: go_context where
  "background = \<lparr>ctxLogger = NilLogger, ctxSpan = None\<rparr>"

definition world0 :: world where
  "world0 = \<lparr>globalCfg = cfg0, heap = [], issued = 0, clock = 0, trace = []\<rparr>"

definition logger0 :: Eotel where
  "logger0 = \<lparr>ctx = background, logger = ZapL, tracer = Tracer ''svc'', meter = Meter ''svc'',
               span = None,
               logCounter = Some (Int64Counter (Meter ''svc'') ''log_total''),
               durationHist = Some (Float64Histogram (Meter ''svc'') ''log_duration_ms''),
               fields' = [], attrs = [], err = None, name = ''op'', start = 0,
               exporter = DefaultExporter\<rparr>"

definition world1 :: world where
  "world1 = world0\<lparr>heap := [logger0]\<rparr>"

text \<open>
  Emissions one after the other on one logger; a later one runs only if the earlier
  ones returned.
\<close>

fun emissions :: "ptr \<Rightarrow> (severity \<times> string) list \<Rightarrow> unit action" where
  "emissions l [] = ret ()"
| "emissions l (sm # rest) = and_then (emission (fst sm) l (snd sm)) (\<lambda>_. emissions l rest)"

text \<open>A pointer one can call methods on: not nil, and pointing at an allocated logger.\<close>

definition usable :: "ptr \<Rightarrow> world \<Rightarrow> bool" where
  "usable p w = (case p of None \<Rightarrow> False | Some a \<Rightarrow> a < length (heap w))"

text \<open>
  Runs used below: two \<^verbatim>\<open>WithField\<close> calls with the same key followed by
  \<^verbatim>\<open>Info\<close>; a \<^verbatim>\<open>WithField\<close> call with the key \<open>log.level\<close> followed by
  \<^verbatim>\<open>Info\<close>; a list of calls mixing both; two \<^verbatim>\<open>Info\<close> calls on one logger; \<^verbatim>\<open>New\<close>, \<^verbatim>\<open>Child\<close> and
  \<^verbatim>\<open>Info\<close> on the child; a request, the same request carrying the logger at address
  0 in its context, and a handler chain that panics.
\<close>

definition duplicate_key_run :: "unit action" where
  "duplicate_key_run =
     and_then (WithField (Some 0) ''k'' (AnyString ''first'')) (\<lambda>l.
     and_then (WithField l ''k'' (AnyString ''second'')) (\<lambda>l.
     Info l ''received''))"

definition reserved_key_run :: "unit action" where
  "reserved_key_run =
     and_then (WithField (Some 0) ''log.level'' (AnyString ''custom'')) (\<lambda>l.
     Info l ''received'')"

definition mixed_calls :: "(string \<times> any) list" where
  "mixed_calls = [(''k'', AnyString ''first''), (''log.level'', AnyString ''custom''),
                  (''k'', AnyString ''second'')]"

definition two_info_run :: "unit action" where
  "two_info_run = and_then (Info (Some 0) ''first'') (\<lambda>_. Info (Some 0) ''second'')"

definition child_info_run :: "unit action" where
  "child_info_run =
     and_then (New background ''op'') (\<lambda>l.
     and_then (Child l ''step'') (\<lambda>c.
     Info c ''working''))"

definition request0 :: gin_context where
  "request0 = \<lparr>reqCtx = background, reqMethod = ''GET'', reqURLPath = ''/orders/7'',
                ginFullPath = ''/orders/:id'', ginClientIP = ''10.0.0.1'', reqUserAgent = ''curl''\<rparr>"

definition request1 :: gin_context where
  "request1 = request0\<lparr>reqCtx := Inject (Some 0) background (EotelPtr (Some 0))\<rparr>"

definition panicking_handler :: "gin_context \<Rightarrow> unit action" where
  "panicking_handler c w = (Panicked (PanicValue (AnyString ''boom'')), w)"

section \<open>Running the actions\<close>

lemma and_then_ret [simp]: "and_then (ret x) f = f x"
  by (rule ext) (simp add: and_then_def ret_def)

lemma and_then_assoc [simp]: "and_then (and_then m f) g = and_then m (\<lambda>x. and_then (f x) g)"
  by (rule ext) (simp add: and_then_def split: prod.splits outcome.splits)

lemma and_then_emit [simp]: "and_then (emit ev) f w = f () (w\<lparr>trace := trace w @ [ev]\<rparr>)"
  by (simp add: and_then_def emit_def)

lemma and_then_getCfg [simp]: "and_then getCfg f w = f (globalCfg w) w"
  by (simp add: and_then_def getCfg_def)

lemma and_then_timeNow [simp]: "and_then timeNow f w = f (clock w) w"
  by (simp add: and_then_def timeNow_def)

lemma and_then_deref [simp]:
  "and_then (deref l) f w =
     (case l of None \<Rightarrow> (Panicked NilDereference, w)
      | Some a \<Rightarrow> if a < length (heap w) then f (heap w ! a) w else (Panicked NilDereference, w))"
  by (simp add: and_then_def deref_def split: option.splits)

lemma and_then_modify [simp]:
  "and_then (modify l g) f w =
     (case l of None \<Rightarrow> (Panicked NilDereference, w)
      | Some a \<Rightarrow> if a < length (heap w) then f () (w\<lparr>heap := (heap w)[a := g (heap w ! a)]\<rparr>)
                  else (Panicked NilDereference, w))"
  by (simp add: and_then_def modify_def split: option.splits)

lemma and_then_alloc [simp]:
  "and_then (alloc e) f w = f (Some (length (heap w))) (w\<lparr>heap := heap w @ [e]\<rparr>)"
  by (simp add: and_then_def alloc_def)

lemma and_then_tracerStart [simp]:
  "and_then (tracerStart t c nm) f w =
     (let sp = \<lparr>spanTraceID = (case ctxSpan c of None \<Rightarrow> digits (issued w) | Some p \<Rightarrow> spanTraceID p),
                spanSpanID = digits (issued w)\<rparr>
      in f (c\<lparr>ctxSpan := Some sp\<rparr>, sp)
           (w\<lparr>issued := Suc (issued w), trace := trace w @ [TracerStart t nm sp]\<rparr>))"
  by (simp add: and_then_def tracerStart_def Let_def)

lemma and_then_osExit [simp]: "and_then (osExit c) f w = (Exited c, w)"
  by (simp add: and_then_def osExit_def)

lemma and_then_if [simp]: "and_then (if b then m else n) f = (if b then and_then m f else and_then n f)"
  by simp

lemma and_then_panic [simp]: "and_then (\<lambda>w. (Panicked p, w)) f = (\<lambda>w. (Panicked p, w))"
  by (rule ext) (simp add: and_then_def)

lemma and_then_counterAdd [simp]:
  "and_then (counterAdd c n lvl) f w =
     (case c of None \<Rightarrow> (Panicked NilDereference, w)
      | Some i \<Rightarrow> f () (w\<lparr>trace := trace w @ [CounterAdd i n lvl]\<rparr>))"
  by (simp add: counterAdd_def and_then_def emit_def split: option.splits)

lemma endSpan_alloc:
  assumes "a < length (heap w)"
  shows "endSpan (Some a) msg level w =
     (metric_outcome (heap w ! a),
      w\<lparr>heap := (heap w)[a := (heap w ! a)\<lparr>attrs := snapshot (heap w ! a) (clock w) msg level\<rparr>],
        trace := trace w @ span_events (heap w ! a) (clock w) msg level
                         @ metric_events (heap w ! a) (clock w) level\<rparr>)"
  using assms
  by (simp add: endSpan_def Let_def snapshot_def span_events_def metric_events_def metric_outcome_def
        histogramRecord_def emit_def ret_def split: option.splits)

lemma startSpanIfNeeded_run:
  assumes "a < length (heap w)"
  shows "startSpanIfNeeded (Some a) w = (Returned (), after_start a w)"
proof (cases "span (heap w ! a)")
  case None
  with assms show ?thesis
    by (auto simp: startSpanIfNeeded_def after_start_def started_logger_def start_events_def
          next_span_def Let_def modify_def intro!: world.equality)
next
  case (Some sp)
  with assms show ?thesis
    by (auto simp: startSpanIfNeeded_def after_start_def started_logger_def start_events_def
          ret_def intro!: world.equality)
qed

lemma and_then_run: "m w = (Returned x, w') \<Longrightarrow> and_then m f w = f x w'"
  by (simp add: and_then_def)

lemmas startSpanIfNeeded_alloc = and_then_run [OF startSpanIfNeeded_run]

lemma after_start_facts:
  assumes "a < length (heap w)"
  shows "length (heap (after_start a w)) = length (heap w)"
    and "heap (after_start a w) ! a = started_logger (heap w ! a) w"
    and "globalCfg (after_start a w) = globalCfg w"
    and "clock (after_start a w) = clock w"
    and "span (started_logger (heap w ! a) w) = Some (log_span (heap w ! a) w)"
  using assms
  by (simp_all add: after_start_def started_logger_def log_span_def split: option.splits)

lemma started_logger_frame:
  "fields' (started_logger e w) = fields' e"
  "attrs (started_logger e w) = attrs e"
  "err (started_logger e w) = err e"
  "start (started_logger e w) = start e"
  "logCounter (started_logger e w) = logCounter e"
  "durationHist (started_logger e w) = durationHist e"
  "logger (started_logger e w) = logger e"
  "exporter (started_logger e w) = exporter e"
  by (simp_all add: started_logger_def split: option.splits)

lemma started_logger_obs:
  "snapshot (started_logger e w) t msg level = snapshot e t msg level"
  "metric_events (started_logger e w) t level = metric_events e t level"
  "metric_outcome (started_logger e w) = metric_outcome e"
  by (simp_all add: snapshot_def metric_events_def metric_outcome_def started_logger_frame
        cong: option.case_cong)

lemma log_nonfatal_alloc:
  assumes "a < length (heap w)" and "nonfatal level"
  shows "log (Some a) level msg w =
     (metric_outcome (heap w ! a),
      w\<lparr>issued := (if span (heap w ! a) = None then Suc (issued w) else issued w),
        heap := (heap w)[a := (started_logger (heap w ! a) w)
                                \<lparr>attrs := snapshot (heap w ! a) (clock w) msg level\<rparr>],
        trace := trace w @ start_events (heap w ! a) w
                   @ [ZapWrite level msg (log_fields (heap w ! a) w level)]
                   @ export_events (heap w ! a) w level msg
                   @ span_events (started_logger (heap w ! a) w) (clock w) msg level
                   @ metric_events (heap w ! a) (clock w) level\<rparr>)"
proof -
  let ?e = "heap w ! a"
  let ?w1 = "after_start a w"
  have zap: "(if level = ''info'' then zapLog z ''info'' msg fs
              else if level = ''error'' then zapLog z ''error'' msg fs
              else if level = ''debug'' then zapLog z ''debug'' msg fs
              else if level = ''warn'' then zapLog z ''warn'' msg fs
              else if level = ''fatal'' then zapFatal z msg fs
              else ret ()) = emit (ZapWrite level msg fs)" for z fs
    using assms(2) by (auto simp: nonfatal_def zapLog_def)
  have "log (Some a) level msg w =
          endSpan (Some a) msg level
            (?w1\<lparr>trace := trace ?w1 @ [ZapWrite level msg (log_fields ?e w level)]
                                     @ export_events ?e w level msg\<rparr>)"
    unfolding log_def using assms(1)
    by (simp add: startSpanIfNeeded_alloc after_start_facts Let_def zap Send_def
          started_logger_frame log_fields_def export_events_def ret_def)
  also have "\<dots> = (metric_outcome ?e,
      w\<lparr>issued := (if span ?e = None then Suc (issued w) else issued w),
        heap := (heap w)[a := (started_logger ?e w)\<lparr>attrs := snapshot ?e (clock w) msg level\<rparr>],
        trace := trace w @ start_events ?e w
                   @ [ZapWrite level msg (log_fields ?e w level)]
                   @ export_events ?e w level msg
                   @ span_events (started_logger ?e w) (clock w) msg level
                   @ metric_events ?e (clock w) level\<rparr>)"
    using assms(1)
    by (auto simp: endSpan_alloc after_start_facts started_logger_obs after_start_def
          intro!: world.equality)
  finally show ?thesis .
qed

lemma log_fatal_alloc:
  assumes "a < length (heap w)"
  shows "log (Some a) ''fatal'' msg w =
     (Exited 1,
      w\<lparr>issued := (if span (heap w ! a) = None then Suc (issued w) else issued w),
        heap := (heap w)[a := started_logger (heap w ! a) w],
        trace := trace w @ start_events (heap w ! a) w
                   @ [ZapWrite ''fatal'' msg (log_fields (heap w ! a) w ''fatal'')]\<rparr>)"
  unfolding log_def using assms
  by (auto simp: startSpanIfNeeded_alloc after_start_facts Let_def zapFatal_def
        started_logger_frame log_fields_def after_start_def intro!: world.equality)

lemma log_unallocated:
  assumes "l = None \<or> (\<exists>a. l = Some a \<and> \<not> a < length (heap w))"
  shows "log l level msg w = (Panicked NilDereference, w)"
  using assms by (auto simp: log_def startSpanIfNeeded_def)

lemma Fatal_eq_log: "Fatal l msg w = log l ''fatal'' msg w"
proof (cases "\<exists>a. l = Some a \<and> a < length (heap w)")
  case True
  then obtain a where "l = Some a" "a < length (heap w)" by blast
  then show ?thesis
    by (simp add: Fatal_def and_then_def [of "log (Some a) ''fatal'' msg"] log_fatal_alloc)
next
  case False
  then have "l = None \<or> (\<exists>a. l = Some a \<and> \<not> a < length (heap w))"
    by (cases l) auto
  then show ?thesis
    by (simp add: Fatal_def and_then_def [of "log l ''fatal'' msg"] log_unallocated)
qed

lemma emission_eq_log: "emission sev l msg w = log l (severity_string sev) msg w"
  by (cases sev) (simp_all add: Info_def Error_def Debug_def Warn_def Fatal_eq_log)

lemma nonfatal_severity: "nonfatal (severity_string sev) \<longleftrightarrow> sev \<noteq> SevFatal"
  by (cases sev) (simp_all add: nonfatal_def)

lemma events_of_run: "snd (act w) = w' \<Longrightarrow> trace w' = trace w @ evs \<Longrightarrow> events_of act w = evs"
  by (simp add: events_of_def)

lemma filter_ZapWrite_groups [simp]:
  "filter is_ZapWrite (start_events e w) = []"
  "filter is_ZapWrite (export_events e w level msg) = []"
  "filter is_ZapWrite (span_events e t msg level) = []"
  "filter is_ZapWrite (metric_events e t level) = []"
  by (simp_all add: start_events_def export_events_def span_events_def metric_events_def
        split: option.splits)

lemma filter_LokiEnqueue_groups [simp]:
  "filter is_LokiEnqueue (start_events e w) = []"
  "\<not> EnableLoki (globalCfg w) \<Longrightarrow> filter is_LokiEnqueue (export_events e w level msg) = []"
  "filter is_LokiEnqueue (span_events e t msg level) = []"
  "filter is_LokiEnqueue (metric_events e t level) = []"
  by (simp_all add: start_events_def export_events_def span_events_def metric_events_def
        split: option.splits)

lemma emission_events_alloc:
  assumes "a < length (heap w)"
  shows "events_of (emission sev (Some a) msg) w =
     (if sev = SevFatal
      then start_events (heap w ! a) w @ [ZapWrite ''fatal'' msg (log_fields (heap w ! a) w ''fatal'')]
      else start_events (heap w ! a) w
             @ [ZapWrite (severity_string sev) msg (log_fields (heap w ! a) w (severity_string sev))]
             @ export_events (heap w ! a) w (severity_string sev) msg
             @ span_events (started_logger (heap w ! a) w) (clock w) msg (severity_string sev)
             @ metric_events (heap w ! a) (clock w) (severity_string sev))"
  using assms
  by (simp add: events_of_def emission_eq_log [abs_def] log_fatal_alloc log_nonfatal_alloc nonfatal_severity)

lemma emission_events_unallocated:
  assumes "l = None \<or> (\<exists>a. l = Some a \<and> \<not> a < length (heap w))"
  shows "events_of (emission sev l msg) w = []"
  using assms by (simp add: events_of_def emission_eq_log [abs_def] log_unallocated)

lemma emission_heap_alloc:
  assumes "a < length (heap w)"
  shows "length (heap (snd (emission sev (Some a) msg w))) = length (heap w)"
    and "span (heap (snd (emission sev (Some a) msg w)) ! a) = Some (log_span (heap w ! a) w)"
    and "fields' (heap (snd (emission sev (Some a) msg w)) ! a) = fields' (heap w ! a)"
    and "globalCfg (snd (emission sev (Some a) msg w)) = globalCfg w"
  unfolding emission_eq_log
proof -
  let ?w' = "snd (log (Some a) (severity_string sev) msg w)"
  show "length (heap ?w') = length (heap w)"
    using assms
    by (cases "sev = SevFatal")
       (simp_all add: log_fatal_alloc log_nonfatal_alloc nonfatal_severity)
  show "span (heap ?w' ! a) = Some (log_span (heap w ! a) w)"
    using assms
    by (cases "sev = SevFatal")
       (simp_all add: log_fatal_alloc log_nonfatal_alloc nonfatal_severity after_start_facts)
  show "fields' (heap ?w' ! a) = fields' (heap w ! a)"
    using assms
    by (cases "sev = SevFatal")
       (simp_all add: log_fatal_alloc log_nonfatal_alloc nonfatal_severity started_logger_frame)
  show "globalCfg ?w' = globalCfg w"
    using assms
    by (cases "sev = SevFatal")
       (simp_all add: log_fatal_alloc log_nonfatal_alloc nonfatal_severity)
qed

lemma WithField_calls_alloc:
  assumes "a < length (heap w)"
  shows "WithField_calls (Some a) kvs w =
     (Returned (),
      w\<lparr>heap := (heap w)[a := (heap w ! a)
          \<lparr>fields' := fields' (heap w ! a) @ map (\<lambda>kv. ZapAny (fst kv) (snd kv)) kvs,
           attrs := attrs (heap w ! a) @ map (\<lambda>kv. KeyValue (fst kv) (AttrString (fmt_v (snd kv)))) kvs\<rparr>]\<rparr>)"
  using assms
proof (induction kvs arbitrary: w)
  case Nil
  then show ?case by (simp add: ret_def)
next
  case (Cons kv kvs)
  then show ?case by (simp add: WithField_def)
qed

lemma WithField_calls_facts:
  assumes "a < length (heap w)"
  shows "fst (WithField_calls (Some a) kvs w) = Returned ()"
    and "length (heap (snd (WithField_calls (Some a) kvs w))) = length (heap w)"
    and "trace (snd (WithField_calls (Some a) kvs w)) = trace w"
    and "globalCfg (snd (WithField_calls (Some a) kvs w)) = globalCfg w"
    and "clock (snd (WithField_calls (Some a) kvs w)) = clock w"
    and "heap (snd (WithField_calls (Some a) kvs w)) ! a = (heap w ! a)
          \<lparr>fields' := fields' (heap w ! a) @ map (\<lambda>kv. ZapAny (fst kv) (snd kv)) kvs,
           attrs := attrs (heap w ! a) @ map (\<lambda>kv. KeyValue (fst kv) (AttrString (fmt_v (snd kv)))) kvs\<rparr>"
  using assms by (simp_all add: WithField_calls_alloc)

lemma events_of_after_silent:
  assumes "fst (m w) = Returned x" and "trace (snd (m w)) = trace w"
  shows "events_of (and_then m f) w = events_of (f x) (snd (m w))"
    and "and_then m f w = f x (snd (m w))"
  using assms by (cases "m w"; simp add: events_of_def and_then_def)+

lemma New_world0: "New background ''op'' world0 = (Returned (Some 0), world1)"
  by code_simp

lemma filter_SpanEnd_groups [simp]:
  "filter is_SpanEnd (start_events e w) = []"
  "filter is_SpanEnd (export_events e w level msg) = []"
  "filter is_SpanEnd (span_events e t msg level) = (case span e of None \<Rightarrow> [] | Some sp \<Rightarrow> [SpanEnd sp])"
  "filter is_SpanEnd (metric_events e t level) = []"
  by (simp_all add: start_events_def export_events_def span_events_def metric_events_def
        split: option.splits)

lemma filter_SpanSetAttributes_groups [simp]:
  "filter is_SpanSetAttributes (start_events e w) = []"
  "filter is_SpanSetAttributes (export_events e w level msg) = []"
  "filter is_SpanSetAttributes (span_events e t msg level) =
     (case span e of None \<Rightarrow> [] | Some sp \<Rightarrow> [SpanSetAttributes sp (snapshot e t msg level)])"
  "filter is_SpanSetAttributes (metric_events e t level) = []"
  by (simp_all add: start_events_def export_events_def span_events_def metric_events_def
        split: option.splits)

lemma filter_write_export_count_groups [simp]:
  "filter (\<lambda>ev. is_ZapWrite ev \<or> is_LokiEnqueue ev \<or> is_CounterAdd ev) (start_events e w) = []"
  "filter (\<lambda>ev. is_ZapWrite ev \<or> is_LokiEnqueue ev \<or> is_CounterAdd ev) (export_events e w level msg)
     = export_events e w level msg"
  "filter (\<lambda>ev. is_ZapWrite ev \<or> is_LokiEnqueue ev \<or> is_CounterAdd ev) (span_events e t msg level) = []"
  "filter (\<lambda>ev. is_ZapWrite ev \<or> is_LokiEnqueue ev \<or> is_CounterAdd ev) (metric_events e t level)
     = (case logCounter e of None \<Rightarrow> [] | Some c \<Rightarrow> [CounterAdd c 1 level])"
  by (simp_all add: start_events_def export_events_def span_events_def metric_events_def
        split: option.splits)

lemma emission_trace_grows:
  "trace (snd (emission sev l msg w)) = trace w @ events_of (emission sev l msg) w"
proof (cases "\<exists>a. l = Some a \<and> a < length (heap w)")
  case True
  then obtain a where l: "l = Some a" and a: "a < length (heap w)" by blast
  show ?thesis
    unfolding l events_of_def emission_eq_log using a
    by (cases "sev = SevFatal")
       (simp_all add: log_fatal_alloc log_nonfatal_alloc nonfatal_severity)
next
  case False
  then have u: "l = None \<or> (\<exists>a. l = Some a \<and> \<not> a < length (heap w))"
    by (cases l) auto
  show ?thesis
    by (simp add: events_of_def emission_eq_log log_unallocated [OF u])
qed

lemma emission_returns:
  assumes "a < length (heap w)" and "logCounter (heap w ! a) = Some c"
    and "durationHist (heap w ! a) = Some h" and "sev \<noteq> SevFatal"
  shows "fst (emission sev (Some a) msg w) = Returned ()"
  using assms
  by (simp add: emission_eq_log log_nonfatal_alloc nonfatal_severity metric_outcome_def)

lemma events_of_seq:
  assumes "fst (m w) = Returned x"
    and "trace (snd (m w)) = trace w @ events_of m w"
    and "trace (snd (f x (snd (m w)))) = trace (snd (m w)) @ events_of (f x) (snd (m w))"
  shows "events_of (and_then m f) w = events_of m w @ events_of (f x) (snd (m w))"
    and "and_then m f w = f x (snd (m w))"
proof -
  obtain w1 where m: "m w = (Returned x, w1)"
    using assms(1) by (cases "m w") auto
  show "and_then m f w = f x (snd (m w))"
    by (simp add: and_then_def m)
  have "trace (snd (f x w1)) = trace w @ events_of m w @ events_of (f x) w1"
    using assms(2,3) by (simp add: m)
  then show "events_of (and_then m f) w = events_of m w @ events_of (f x) (snd (m w))"
    by (simp add: events_of_def [of "and_then m f"] and_then_def m)
qed

lemma WithField_alloc:
  assumes "a < length (heap w)"
  shows "WithField (Some a) k v w =
     (Returned (Some a),
      w\<lparr>heap := (heap w)[a := (heap w ! a)
          \<lparr>fields' := fields' (heap w ! a) @ [ZapAny k v],
           attrs := attrs (heap w ! a) @ [KeyValue k (AttrString (fmt_v v))]\<rparr>]\<rparr>)"
  using assms by (simp add: WithField_def ret_def)

lemma WithFields_alloc:
  assumes "a < length (heap w)"
  shows "WithFields (Some a) kvs w =
     (Returned (Some a),
      w\<lparr>heap := (heap w)[a := (heap w ! a)
          \<lparr>fields' := fields' (heap w ! a) @ map (\<lambda>kv. ZapAny (fst kv) (snd kv)) kvs,
           attrs := attrs (heap w ! a) @ map (\<lambda>kv. KeyValue (fst kv) (AttrString (fmt_v (snd kv)))) kvs\<rparr>]\<rparr>)"
  by (simp add: WithFields_def and_then_def [of "WithField_calls (Some a) kvs"]
        WithField_calls_alloc [OF assms] ret_def)

lemma WithError_alloc:
  assumes "a < length (heap w)"
  shows "WithError (Some a) (Some x) w =
     (Returned (Some a),
      w\<lparr>heap := (heap w)[a := (heap w ! a)
          \<lparr>err := Some x,
           fields' := fields' (heap w ! a) @ [ZapError x],
           attrs := attrs (heap w ! a) @ [KeyValue ''error'' (AttrString x)]\<rparr>],
        trace := trace w @ [SentryCapture x [] [(''error'', AnyString x)]]\<rparr>)"
  using assms by (simp add: WithError_def CaptureError_def ret_def)

lemma WithError_nil: "WithError l None w = (Returned l, w)"
  by (simp add: WithError_def ret_def)

lemma and_then_trace_grows:
  assumes "trace (snd (m w)) = trace w @ events_of m w"
    and "\<And>x w'. trace (snd (f x w')) = trace w' @ events_of (f x) w'"
  shows "trace (snd (and_then m f w)) = trace w @ events_of (and_then m f) w"
    and "events_of (and_then m f) w =
           events_of m w @ (case m w of (Returned x, w1) \<Rightarrow> events_of (f x) w1 | _ \<Rightarrow> [])"
proof -
  obtain r w1 where m: "m w = (r, w1)" by (cases "m w")
  have t1: "trace w1 = trace w @ events_of m w"
    using assms(1) by (simp add: m)
  show "events_of (and_then m f) w =
           events_of m w @ (case m w of (Returned x, w1) \<Rightarrow> events_of (f x) w1 | _ \<Rightarrow> [])"
  proof (cases r)
    case (Returned x)
    have "trace (snd (f x w1)) = trace w @ events_of m w @ events_of (f x) w1"
      using assms(2) [of x w1] t1 by simp
    then show ?thesis
      by (simp add: events_of_def [of "and_then m f"] and_then_def m Returned)
  next
    case (Panicked q)
    then show ?thesis
      using t1 by (simp add: events_of_def [of "and_then m f"] and_then_def m)
  next
    case (Exited n)
    then show ?thesis
      using t1 by (simp add: events_of_def [of "and_then m f"] and_then_def m)
  qed
  then show "trace (snd (and_then m f w)) = trace w @ events_of (and_then m f) w"
  proof (cases r)
    case (Returned x)
    have "trace (snd (f x w1)) = trace w @ events_of m w @ events_of (f x) w1"
      using assms(2) [of x w1] t1 by simp
    then show ?thesis
      by (simp add: events_of_def [of "and_then m f"] and_then_def m Returned)
  next
    case (Panicked q)
    then show ?thesis
      using t1 by (simp add: events_of_def [of "and_then m f"] and_then_def m)
  next
    case (Exited n)
    then show ?thesis
      using t1 by (simp add: events_of_def [of "and_then m f"] and_then_def m)
  qed
qed

lemma emissions_trace_grows:
  "trace (snd (emissions l es w)) = trace w @ events_of (emissions l es) w"
proof (induction es arbitrary: w)
  case Nil
  show ?case by (simp add: ret_def events_of_def)
next
  case (Cons sm es)
  show ?case
    unfolding emissions.simps
    by (rule and_then_trace_grows(1)) (simp_all add: emission_trace_grows Cons.IH)
qed

lemma emission_write_fields:
  assumes "a < length (heap w)"
    and "ZapWrite lvl m fs \<in> set (events_of (emission sev (Some a) msg) w)"
  shows "fs = [ZapString ''trace_id'' (spanTraceID (log_span (heap w ! a) w)),
               ZapString ''span_id'' (spanSpanID (log_span (heap w ! a) w)),
               ZapString ''job'' (JobName (globalCfg w)),
               ZapString ''service'' (ServiceName (globalCfg w)),
               ZapString ''level'' (severity_string sev)] @ fields' (heap w ! a)"
proof -
  have F: "filter is_ZapWrite (events_of (emission sev (Some a) msg) w) =
             [ZapWrite (severity_string sev) msg (log_fields (heap w ! a) w (severity_string sev))]"
    by (simp add: emission_events_alloc [OF assms(1)])
  have "ZapWrite lvl m fs \<in> set (filter is_ZapWrite (events_of (emission sev (Some a) msg) w))"
    using assms(2) by simp
  then show ?thesis
    unfolding F by (simp add: log_fields_def)
qed

lemma emissions_writes_carry_field:
  assumes "a < length (heap w)" and "fld \<in> set (fields' (heap w ! a))"
    and "ZapWrite lvl m fs \<in> set (events_of (emissions (Some a) es) w)"
  shows "fld \<in> set fs"
  using assms
proof (induction es arbitrary: w)
  case Nil
  then show ?case by (simp add: ret_def events_of_def)
next
  case (Cons sm es)
  let ?m = "emission (fst sm) (Some a) (snd sm)"
  have ev: "events_of (emissions (Some a) (sm # es)) w =
          events_of ?m w @ (case ?m w of (Returned x, w1) \<Rightarrow> events_of (emissions (Some a) es) w1
                            | _ \<Rightarrow> [])"
    unfolding emissions.simps
    by (rule and_then_trace_grows(2)) (simp_all add: emission_trace_grows emissions_trace_grows)
  obtain r w1 where m: "?m w = (r, w1)" by (cases "?m w")
  show ?case
  proof (cases "ZapWrite lvl m fs \<in> set (events_of ?m w)")
    case True
    from emission_write_fields [OF Cons.prems(1) True] Cons.prems(2) show ?thesis
      by simp
  next
    case False
    with Cons.prems(3) have later: "r = Returned ()"
        "ZapWrite lvl m fs \<in> set (events_of (emissions (Some a) es) w1)"
      unfolding ev m by (cases r; simp)+
    have w1: "w1 = snd (?m w)" using m by simp
    have "a < length (heap w1)" and "fld \<in> set (fields' (heap w1 ! a))"
      unfolding w1 using Cons.prems(1,2) by (simp_all add: emission_heap_alloc)
    then show ?thesis
      using Cons.IH later(2) by blast
  qed
qed

lemma RecoverPanic_no_panic: "RecoverPanic l c None w = (Returned (), w)"
  by (simp add: RecoverPanic_def ret_def)

lemma RecoverPanic_closure_converts:
  "fst (RecoverPanic (Some 0) request1 (Some (PanicValue (AnyString ''boom''))) world1) = Returned () \<and>
   filter (\<lambda>ev. is_ZapWrite ev \<or> is_GinAbort ev)
     (events_of (RecoverPanic (Some 0) request1 (Some (PanicValue (AnyString ''boom'')))) world1) =
     [ZapWrite ''error'' ''unhandled panic''
        [ZapString ''trace_id'' ''0'', ZapString ''span_id'' ''0'', ZapString ''job'' ''job'',
         ZapString ''service'' ''svc'', ZapString ''level'' ''error'', ZapError ''panic: boom''],
      GinAbort 500]"
  by code_simp

lemma Fatal_alloc:
  assumes "a < length (heap w)"
  shows "fst (Fatal (Some a) msg w) = Exited 1"
    and "filter (\<lambda>ev. is_SpanEnd ev \<or> is_CounterAdd ev \<or> is_HistogramRecord ev)
           (events_of (Fatal (Some a) msg) w) = []"
  using assms
  by (simp_all add: Fatal_eq_log log_fatal_alloc events_of_def start_events_def split: option.splits)

lemma nil_counter_emission_panics:
  assumes "a < length (heap w)" and "logCounter (heap w ! a) = None" and "sev \<noteq> SevFatal"
  shows "fst (emission sev (Some a) msg w) = Panicked NilDereference"
  using assms
  by (simp add: emission_eq_log log_nonfatal_alloc nonfatal_severity metric_outcome_def)

lemma Child_leaves_instruments_nil:
  assumes "a < length (heap w)"
  shows "fst (Child (Some a) nm w) = Returned (Some (length (heap w)))"
    and "logCounter (heap (snd (Child (Some a) nm w)) ! length (heap w)) = None"
    and "durationHist (heap (snd (Child (Some a) nm w)) ! length (heap w)) = None"
  using assms by (simp_all add: Child_def Let_def alloc_def)

lemma nil_Eotel_returned_as_stored:
  "FromContext None (Inject None background (EotelPtr None)) ''handler'' world1 = (Returned None, world1) \<and>
   \<not> usable None world1"
  by code_simp

lemma filter_key_attached:
  "filter (\<lambda>x. Key x = k) (map (\<lambda>kv. KeyValue (fst kv) (AttrString (fmt_v (snd kv)))) kvs) =
   map (\<lambda>kv. KeyValue (fst kv) (AttrString (fmt_v (snd kv)))) (filter (\<lambda>kv. fst kv = k) kvs)"
  by (induction kvs) auto

lemma last_attached:
  assumes "k \<in> fst ` set kvs"
  shows "filter (\<lambda>kv. fst kv = k) kvs \<noteq> []"
    and "last (map (\<lambda>kv. KeyValue (fst kv) (AttrString (fmt_v (snd kv))))
                 (filter (\<lambda>kv. fst kv = k) kvs)) =
         KeyValue k (AttrString (fmt_v (snd (last (filter (\<lambda>kv. fst kv = k) kvs)))))"
proof -
  let ?zs = "filter (\<lambda>kv. fst kv = k) kvs"
  from assms obtain kv where "kv \<in> set kvs" "fst kv = k" by auto
  then show ne: "?zs \<noteq> []" by (auto simp: filter_empty_conv)
  then have "last ?zs \<in> set ?zs" by (rule last_in_set)
  then have "fst (last ?zs) = k" by simp
  with ne show "last (map (\<lambda>kv. KeyValue (fst kv) (AttrString (fmt_v (snd kv)))) ?zs) =
         KeyValue k (AttrString (fmt_v (snd (last ?zs))))"
    by (simp add: last_map)
qed

lemma reserved_key_emission_entry_last:
  "filter is_SpanSetAttributes (events_of reserved_key_run world1) =
     [SpanSetAttributes \<lparr>spanTraceID = ''0'', spanSpanID = ''0''\<rparr>
        [KeyValue ''duration_ms'' (AttrFloat64 0),
         KeyValue ''log.level'' (AttrString ''custom''),
         KeyValue ''log.level'' (AttrString ''info''),
         KeyValue ''log.message'' (AttrString ''received'')]]"
  by code_simp

section \<open>The claims\<close>

text \<open>
  C1. For every logger and every severity, an emission call never raises an unhandled
  fault back to the caller; in particular a nil counter or histogram, as in a logger
  built by \<^verbatim>\<open>Child\<close>, is swallowed and the emission completes. The code has no such
  protection: \<^verbatim>\<open>Child\<close> leaves \<^verbatim>\<open>logCounter\<close> and \<^verbatim>\<open>durationHist\<close> nil
  (\<open>Child_leaves_instruments_nil\<close>), \<^verbatim>\<open>endSpan\<close> calls \<^verbatim>\<open>l.logCounter.Add\<close>
  unguarded, and nothing on the path recovers (\<open>nil_counter_emission_panics\<close>).
  Evaluated: \<^verbatim>\<open>New(ctx, "op").Child("step").Info("working")\<close> panics with a nil
  dereference, after the write, the export and the span end, and before any count.
\<close>

theorem child_logger_emission_panics:
  "fst (child_info_run world0) = Panicked NilDereference \<and>
   events_of child_info_run world0 =
     [TracerStart (Tracer ''svc'') ''step'' \<lparr>spanTraceID = ''0'', spanSpanID = ''0''\<rparr>,
      ZapWrite ''info'' ''working''
        [ZapString ''trace_id'' ''0'', ZapString ''span_id'' ''0'', ZapString ''job'' ''job'',
         ZapString ''service'' ''svc'', ZapString ''level'' ''info''],
      LokiEnqueue \<lparr>Labels = [(''level'', ''info''), (''job'', ''job''), (''service'', ''svc''),
                              (''trace_id'', ''0''), (''span_id'', ''0'')],
                   Message = ''working''\<rparr>,
      SpanSetAttributes \<lparr>spanTraceID = ''0'', spanSpanID = ''0''\<rparr>
        [KeyValue ''duration_ms'' (AttrFloat64 0), KeyValue ''log.level'' (AttrString ''info''),
         KeyValue ''log.message'' (AttrString ''working'')],
      SpanEnd \<lparr>spanTraceID = ''0'', spanSpanID = ''0''\<rparr>]"
  by code_simp

text \<open>
  C2, as amended. For any sequence of \<^verbatim>\<open>WithField\<close> calls on one logger, including
  calls that reuse a key, the attribute list handed to the span at a non-fatal emission
  is the stable sort by key of three parts in this order: the attributes the logger
  already had, one attribute per call, and the three attributes the emission appends
  itself (\<open>log.message\<close>, \<open>log.level\<close>, \<open>duration_ms\<close>). Nothing is overwritten or
  dropped: the entries of a key are the earlier ones, then one per call that set the
  key in the order of the calls, then the emission's own. So for a key other than those
  three, the list holds as many entries as the logger had for it plus the number of
  calls that set it (on a logger without earlier attributes, a key set n times occurs n
  times), and when a call set it, the last entry is bound to the value of the last set.
  For each of the three keys the emission appends, the emission's own entry is the last
  one, also when calls set that key (\<open>reserved_key_emission_entry_last\<close>).
\<close>

theorem snapshot_one_entry_per_append:
  assumes "a < length (heap w)" and "sev \<noteq> SevFatal"
  shows "\<exists>sp snap.
     filter is_SpanSetAttributes
       (events_of (and_then (WithField_calls (Some a) kvs) (\<lambda>_. emission sev (Some a) msg)) w) =
       [SpanSetAttributes sp snap] \<and>
     snap = sort_key Key
              (attrs (heap w ! a)
               @ map (\<lambda>kv. KeyValue (fst kv) (AttrString (fmt_v (snd kv)))) kvs
               @ [KeyValue ''log.message'' (AttrString msg),
                  KeyValue ''log.level'' (AttrString (severity_string sev)),
                  KeyValue ''duration_ms'' (AttrFloat64 (clock w - start (heap w ! a)))]) \<and>
     sorted (map Key snap) \<and>
     (\<forall>k. filter (\<lambda>x. Key x = k) snap =
          filter (\<lambda>x. Key x = k) (attrs (heap w ! a))
          @ map (\<lambda>kv. KeyValue (fst kv) (AttrString (fmt_v (snd kv)))) (filter (\<lambda>kv. fst kv = k) kvs)
          @ filter (\<lambda>x. Key x = k)
              [KeyValue ''log.message'' (AttrString msg),
               KeyValue ''log.level'' (AttrString (severity_string sev)),
               KeyValue ''duration_ms'' (AttrFloat64 (clock w - start (heap w ! a)))]) \<and>
     (\<forall>k. k \<notin> {''log.message'', ''log.level'', ''duration_ms''} \<longrightarrow>
          length (filter (\<lambda>x. Key x = k) snap) =
            length (filter (\<lambda>x. Key x = k) (attrs (heap w ! a)))
            + length (filter (\<lambda>kv. fst kv = k) kvs)) \<and>
     (\<forall>k. k \<notin> {''log.message'', ''log.level'', ''duration_ms''} \<and> k \<in> fst ` set kvs \<longrightarrow>
          last (filter (\<lambda>x. Key x = k) snap) =
            KeyValue k (AttrString (fmt_v (snd (last (filter (\<lambda>kv. fst kv = k) kvs)))))) \<and>
     last (filter (\<lambda>x. Key x = ''log.message'') snap) = KeyValue ''log.message'' (AttrString msg) \<and>
     last (filter (\<lambda>x. Key x = ''log.level'') snap) =
       KeyValue ''log.level'' (AttrString (severity_string sev)) \<and>
     last (filter (\<lambda>x. Key x = ''duration_ms'') snap) =
       KeyValue ''duration_ms'' (AttrFloat64 (clock w - start (heap w ! a)))"
proof -
  define w1 where "w1 = snd (WithField_calls (Some a) kvs w)"
  note f = WithField_calls_facts [OF assms(1), of kvs, folded w1_def]
  have a1: "a < length (heap w1)"
    using assms(1) f(2) by simp
  note s = events_of_after_silent [where m = "WithField_calls (Some a) kvs" and w = w and x = "()"
             and f = "\<lambda>_. emission sev (Some a) msg",
             OF WithField_calls_facts(1) [OF assms(1)] WithField_calls_facts(3) [OF assms(1)]]
  have ev: "events_of (and_then (WithField_calls (Some a) kvs) (\<lambda>_. emission sev (Some a) msg)) w
             = events_of (emission sev (Some a) msg) w1"
    using s(1) by (simp add: w1_def)
  let ?old = "attrs (heap w ! a)"
  let ?new = "map (\<lambda>kv. KeyValue (fst kv) (AttrString (fmt_v (snd kv)))) kvs"
  let ?fin = "[KeyValue ''log.message'' (AttrString msg),
               KeyValue ''log.level'' (AttrString (severity_string sev)),
               KeyValue ''duration_ms'' (AttrFloat64 (clock w - start (heap w ! a)))]"
  let ?snap = "sort_key Key (?old @ ?new @ ?fin)"
  have started: "span (started_logger e w') = Some (log_span e w')" for e w'
    by (simp add: started_logger_def log_span_def split: option.splits)
  have snap: "snapshot (heap w1 ! a) (clock w1) msg (severity_string sev) = ?snap"
    by (simp add: snapshot_def f)
  have c1: "filter is_SpanSetAttributes (events_of (emission sev (Some a) msg) w1) =
          [SpanSetAttributes (log_span (heap w1 ! a) w1) ?snap]"
    using assms(2)
    by (simp add: emission_events_alloc [OF a1] started started_logger_obs snap)
  have c2: "sorted (map Key ?snap)"
    by (rule sorted_sort_key)
  have per_key: "filter (\<lambda>x. Key x = k) ?snap =
          filter (\<lambda>x. Key x = k) ?old
          @ map (\<lambda>kv. KeyValue (fst kv) (AttrString (fmt_v (snd kv)))) (filter (\<lambda>kv. fst kv = k) kvs)
          @ filter (\<lambda>x. Key x = k) ?fin" for k
    by (simp only: sort_key_stable filter_append filter_key_attached)
  have other: "filter (\<lambda>x. Key x = k) ?fin = []"
    if "k \<notin> {''log.message'', ''log.level'', ''duration_ms''}" for k
    using that by auto
  have c4: "length (filter (\<lambda>x. Key x = k) ?snap) =
            length (filter (\<lambda>x. Key x = k) ?old) + length (filter (\<lambda>kv. fst kv = k) kvs)"
    if "k \<notin> {''log.message'', ''log.level'', ''duration_ms''}" for k
    by (simp only: per_key other [OF that]) simp
  have c5: "last (filter (\<lambda>x. Key x = k) ?snap) =
            KeyValue k (AttrString (fmt_v (snd (last (filter (\<lambda>kv. fst kv = k) kvs)))))"
    if "k \<notin> {''log.message'', ''log.level'', ''duration_ms''} \<and> k \<in> fst ` set kvs" for k
  proof -
    from that have r: "k \<notin> {''log.message'', ''log.level'', ''duration_ms''}"
      and m: "k \<in> fst ` set kvs" by blast+
    show ?thesis
      using last_attached [OF m]
      by (simp only: per_key other [OF r]) simp
  qed
  have c6: "last (filter (\<lambda>x. Key x = ''log.message'') ?snap) = KeyValue ''log.message'' (AttrString msg)"
    by (simp only: per_key) simp
  have c7: "last (filter (\<lambda>x. Key x = ''log.level'') ?snap) =
       KeyValue ''log.level'' (AttrString (severity_string sev))"
    by (simp only: per_key) simp
  have c8: "last (filter (\<lambda>x. Key x = ''duration_ms'') ?snap) =
       KeyValue ''duration_ms'' (AttrFloat64 (clock w - start (heap w ! a)))"
    by (simp only: per_key) simp
  show ?thesis
    unfolding ev
    apply (rule exI [of _ "log_span (heap w1 ! a) w1"])
    apply (rule exI [of _ ?snap])
    apply (intro conjI allI impI)
    apply (rule c1)
    apply (rule refl)
    apply (rule c2)
    apply (rule per_key)
    apply (erule c4)
    apply (erule c5)
    apply (rule c6)
    apply (rule c7)
    apply (rule c8)
    done
qed

text \<open>
  The amended statement at the logger of \<open>world1\<close>, with the key \<open>k\<close> set twice and
  \<open>log.level\<close> set once by the caller.
\<close>

theorem snapshot_one_entry_per_append_witness:
  "0 < length (heap world1) \<and> SevInfo \<noteq> SevFatal \<and>
   ''k'' \<notin> {''log.message'', ''log.level'', ''duration_ms''} \<and>
   ''k'' \<in> fst ` set mixed_calls \<and>
   (\<exists>sp snap.
     filter is_SpanSetAttributes
       (events_of (and_then (WithField_calls (Some 0) mixed_calls)
                            (\<lambda>_. emission SevInfo (Some 0) ''received'')) world1) =
       [SpanSetAttributes sp snap] \<and>
     sorted (map Key snap) \<and>
     length (filter (\<lambda>x. Key x = ''k'') snap) = 2 \<and>
     last (filter (\<lambda>x. Key x = ''k'') snap) = KeyValue ''k'' (AttrString ''second'') \<and>
     last (filter (\<lambda>x. Key x = ''log.level'') snap) = KeyValue ''log.level'' (AttrString ''info''))"
proof -
  have h1: "0 < length (heap world1)" by code_simp
  have h2: "SevInfo \<noteq> SevFatal" by simp
  have h3: "''k'' \<notin> {''log.message'', ''log.level'', ''duration_ms''}" by simp
  have h4: "''k'' \<in> fst ` set mixed_calls" by (simp add: mixed_calls_def)
  from snapshot_one_entry_per_append [OF h1 h2, of mixed_calls "''received''"]
  obtain sp snap where
    e: "filter is_SpanSetAttributes
          (events_of (and_then (WithField_calls (Some 0) mixed_calls)
                               (\<lambda>_. emission SevInfo (Some 0) ''received'')) world1) =
          [SpanSetAttributes sp snap]"
    and so: "sorted (map Key snap)"
    and len: "\<forall>k. k \<notin> {''log.message'', ''log.level'', ''duration_ms''} \<longrightarrow>
          length (filter (\<lambda>x. Key x = k) snap) =
            length (filter (\<lambda>x. Key x = k) (attrs (heap world1 ! 0)))
            + length (filter (\<lambda>kv. fst kv = k) mixed_calls)"
    and la: "\<forall>k. k \<notin> {''log.message'', ''log.level'', ''duration_ms''} \<and> k \<in> fst ` set mixed_calls \<longrightarrow>
          last (filter (\<lambda>x. Key x = k) snap) =
            KeyValue k (AttrString (fmt_v (snd (last (filter (\<lambda>kv. fst kv = k) mixed_calls)))))"
    and ll: "last (filter (\<lambda>x. Key x = ''log.level'') snap) =
               KeyValue ''log.level'' (AttrString (severity_string SevInfo))"
    by (elim exE conjE) (rule that; assumption)
  have n: "length (filter (\<lambda>x. Key x = ''k'') (attrs (heap world1 ! 0)))
           + length (filter (\<lambda>kv. fst kv = ''k'') mixed_calls) = 2"
    by code_simp
  have v: "fmt_v (snd (last (filter (\<lambda>kv. fst kv = ''k'') mixed_calls))) = ''second''"
    by code_simp
  have c3: "length (filter (\<lambda>x. Key x = ''k'') snap) = 2"
    using len [rule_format, OF h3] n by simp
  have c4: "last (filter (\<lambda>x. Key x = ''k'') snap) = KeyValue ''k'' (AttrString ''second'')"
    using la [rule_format, OF conjI [OF h3 h4]] v by simp
  have c5: "last (filter (\<lambda>x. Key x = ''log.level'') snap) = KeyValue ''log.level'' (AttrString ''info'')"
    using ll by simp
  show ?thesis
    by (intro conjI exI [of _ sp] exI [of _ snap]) (fact h1 h2 h3 h4 e so c3 c4 c5)+
qed

text \<open>
  C2 as stated fails: after \<^verbatim>\<open>WithField("k", "first")\<close> and
  \<^verbatim>\<open>WithField("k", "second")\<close>, the list passed to \<^verbatim>\<open>SetAttributes\<close> by
  \<^verbatim>\<open>Info("received")\<close> holds the key \<open>k\<close> twice.
\<close>

theorem duplicate_key_kept_counterexample:
  "filter is_SpanSetAttributes (events_of duplicate_key_run world1) =
     [SpanSetAttributes \<lparr>spanTraceID = ''0'', spanSpanID = ''0''\<rparr>
        [KeyValue ''duration_ms'' (AttrFloat64 0),
         KeyValue ''k'' (AttrString ''first''),
         KeyValue ''k'' (AttrString ''second''),
         KeyValue ''log.level'' (AttrString ''info''),
         KeyValue ''log.message'' (AttrString ''received'')]]"
  by code_simp

text \<open>
  C3, as amended. On a logger whose counter is present, one emission at a severity other
  than fatal produces exactly one structured-log write, then, when export is enabled,
  exactly one enqueued entry (none when it is disabled), then exactly one count
  increment: the enqueue comes before the increment, not after it.
\<close>

theorem emission_effects_in_order:
  assumes "a < length (heap w)" and "logCounter (heap w ! a) = Some c" and "sev \<noteq> SevFatal"
  shows "\<exists>fs labels.
     filter (\<lambda>ev. is_ZapWrite ev \<or> is_LokiEnqueue ev \<or> is_CounterAdd ev)
       (events_of (emission sev (Some a) msg) w) =
     [ZapWrite (severity_string sev) msg fs]
     @ (if EnableLoki (globalCfg w) then [LokiEnqueue \<lparr>Labels = labels, Message = msg\<rparr>] else [])
     @ [CounterAdd c 1 (severity_string sev)]"
  using assms
  by (simp add: emission_events_alloc export_events_def)

text \<open>The amended statement at the logger of \<open>world1\<close>, severity warn.\<close>

theorem emission_effects_in_order_witness:
  "0 < length (heap world1) \<and>
   logCounter (heap world1 ! 0) = Some (Int64Counter (Meter ''svc'') ''log_total'') \<and>
   SevWarn \<noteq> SevFatal \<and>
   (\<exists>fs labels.
     filter (\<lambda>ev. is_ZapWrite ev \<or> is_LokiEnqueue ev \<or> is_CounterAdd ev)
       (events_of (emission SevWarn (Some 0) ''slow'') world1) =
     [ZapWrite (severity_string SevWarn) ''slow'' fs]
     @ (if EnableLoki (globalCfg world1) then [LokiEnqueue \<lparr>Labels = labels, Message = ''slow''\<rparr>] else [])
     @ [CounterAdd (Int64Counter (Meter ''svc'') ''log_total'') 1 (severity_string SevWarn)])"
proof -
  have h1: "0 < length (heap world1)" by code_simp
  have h2: "logCounter (heap world1 ! 0) = Some (Int64Counter (Meter ''svc'') ''log_total'')"
    by code_simp
  have h3: "SevWarn \<noteq> SevFatal" by simp
  from emission_effects_in_order [OF h1 h2 h3] h1 h2 h3 show ?thesis by blast
qed

text \<open>
  C3 as stated fails on the order: with export enabled, \<^verbatim>\<open>Info("received")\<close> reaches
  the export queue before the counter.
\<close>

theorem export_precedes_count_counterexample:
  "events_of (emission SevInfo (Some 0) ''received'') world1 =
     [TracerStart (Tracer ''svc'') ''op'' \<lparr>spanTraceID = ''0'', spanSpanID = ''0''\<rparr>,
      ZapWrite ''info'' ''received''
        [ZapString ''trace_id'' ''0'', ZapString ''span_id'' ''0'', ZapString ''job'' ''job'',
         ZapString ''service'' ''svc'', ZapString ''level'' ''info''],
      LokiEnqueue \<lparr>Labels = [(''level'', ''info''), (''job'', ''job''), (''service'', ''svc''),
                              (''trace_id'', ''0''), (''span_id'', ''0'')],
                   Message = ''received''\<rparr>,
      SpanSetAttributes \<lparr>spanTraceID = ''0'', spanSpanID = ''0''\<rparr>
        [KeyValue ''duration_ms'' (AttrFloat64 0), KeyValue ''log.level'' (AttrString ''info''),
         KeyValue ''log.message'' (AttrString ''received'')],
      SpanEnd \<lparr>spanTraceID = ''0'', spanSpanID = ''0''\<rparr>,
      CounterAdd (Int64Counter (Meter ''svc'') ''log_total'') 1 ''info'',
      HistogramRecord (Float64Histogram (Meter ''svc'') ''log_duration_ms'') 0 ''info'']"
  by code_simp

text \<open>
  C4, as amended. The logger keeps no record that its span has ended: every non-fatal
  emission calls \<^verbatim>\<open>End\<close> on the logger's span once, so two emissions on one logger
  (instruments present, so that the first returns) send two \<^verbatim>\<open>End\<close> calls for the same
  span to the tracing backend. Whether the second has an effect is the backend's
  business.
\<close>

theorem each_emission_ends_span:
  assumes "a < length (heap w)" and "logCounter (heap w ! a) = Some c"
    and "durationHist (heap w ! a) = Some h" and "s1 \<noteq> SevFatal" and "s2 \<noteq> SevFatal"
  shows "\<exists>sp. span (heap (snd (emission s1 (Some a) m1 w)) ! a) = Some sp \<and>
     filter is_SpanEnd (events_of (emission s1 (Some a) m1) w) = [SpanEnd sp] \<and>
     filter is_SpanEnd
       (events_of (and_then (emission s1 (Some a) m1) (\<lambda>_. emission s2 (Some a) m2)) w) =
       [SpanEnd sp, SpanEnd sp]"
proof -
  define w1 where "w1 = snd (emission s1 (Some a) m1 w)"
  let ?sp = "log_span (heap w ! a) w"
  note h1 = emission_heap_alloc [OF assms(1), of s1 m1, folded w1_def]
  have a1: "a < length (heap w1)"
    using assms(1) h1(1) by simp
  have sp1: "span (heap w1 ! a) = Some ?sp"
    by (rule h1(2))
  have started: "span (started_logger e w') = Some (log_span e w')" for e w'
    by (simp add: started_logger_def log_span_def split: option.splits)
  have first: "filter is_SpanEnd (events_of (emission s1 (Some a) m1) w) = [SpanEnd ?sp]"
    using assms(4) by (simp add: emission_events_alloc [OF assms(1)] started)
  have "log_span (heap w1 ! a) w1 = ?sp"
    by (simp add: log_span_def sp1)
  then have second: "filter is_SpanEnd (events_of (emission s2 (Some a) m2) w1) = [SpanEnd ?sp]"
    using assms(5) by (simp add: emission_events_alloc [OF a1] started)
  have "events_of (and_then (emission s1 (Some a) m1) (\<lambda>_. emission s2 (Some a) m2)) w
        = events_of (emission s1 (Some a) m1) w @ events_of (emission s2 (Some a) m2) w1"
    unfolding w1_def
    by (rule events_of_seq(1) [where x = "()"])
       (simp_all add: emission_returns [OF assms(1-4)] emission_trace_grows)
  then have both: "filter is_SpanEnd
       (events_of (and_then (emission s1 (Some a) m1) (\<lambda>_. emission s2 (Some a) m2)) w) =
       [SpanEnd ?sp, SpanEnd ?sp]"
    by (simp add: first second)
  from sp1 first both show ?thesis
    unfolding w1_def by blast
qed

text \<open>The amended statement at the logger of \<open>world1\<close>: info, then error.\<close>

theorem each_emission_ends_span_witness:
  "0 < length (heap world1) \<and>
   logCounter (heap world1 ! 0) = Some (Int64Counter (Meter ''svc'') ''log_total'') \<and>
   durationHist (heap world1 ! 0) = Some (Float64Histogram (Meter ''svc'') ''log_duration_ms'') \<and>
   SevInfo \<noteq> SevFatal \<and> SevError \<noteq> SevFatal \<and>
   (\<exists>sp. span (heap (snd (emission SevInfo (Some 0) ''first'' world1)) ! 0) = Some sp \<and>
     filter is_SpanEnd (events_of (emission SevInfo (Some 0) ''first'') world1) = [SpanEnd sp] \<and>
     filter is_SpanEnd
       (events_of (and_then (emission SevInfo (Some 0) ''first'')
                            (\<lambda>_. emission SevError (Some 0) ''second'')) world1) =
       [SpanEnd sp, SpanEnd sp])"
proof -
  have h1: "0 < length (heap world1)" by code_simp
  have h2: "logCounter (heap world1 ! 0) = Some (Int64Counter (Meter ''svc'') ''log_total'')"
    by code_simp
  have h3: "durationHist (heap world1 ! 0) = Some (Float64Histogram (Meter ''svc'') ''log_duration_ms'')"
    by code_simp
  have h4: "SevInfo \<noteq> SevFatal" and h5: "SevError \<noteq> SevFatal" by simp_all
  from each_emission_ends_span [OF h1 h2 h3 h4 h5] h1 h2 h3 h4 h5 show ?thesis by blast
qed

text \<open>
  C4 as stated fails: two \<^verbatim>\<open>Info\<close> calls on one logger make two \<^verbatim>\<open>End\<close> calls on
  the same span.
\<close>

theorem second_emission_ends_span_again_counterexample:
  "filter is_SpanEnd (events_of two_info_run world1) =
     [SpanEnd \<lparr>spanTraceID = ''0'', spanSpanID = ''0''\<rparr>,
      SpanEnd \<lparr>spanTraceID = ''0'', spanSpanID = ''0''\<rparr>]"
  by code_simp

text \<open>
  C5. \<^verbatim>\<open>Fatal(msg)\<close> first completes the structured-log write, the span end and the
  metrics recording, and only then terminates the process. The code does not get that
  far: \<^verbatim>\<open>log("fatal", msg)\<close> hands the entry to zap's \<^verbatim>\<open>Fatal\<close>, which exits the
  process, so \<^verbatim>\<open>Send\<close>, \<^verbatim>\<open>endSpan\<close> and the two statements after \<^verbatim>\<open>l.log\<close> in
  \<^verbatim>\<open>Fatal\<close> are never reached (\<open>Fatal_alloc\<close>, for every allocated logger).
  Evaluated: \<^verbatim>\<open>Fatal("shutdown")\<close> on the logger of \<open>world1\<close> exits with the span
  started and the entry written, and nothing else.
\<close>

theorem fatal_exits_inside_log_write:
  "fst (Fatal (Some 0) ''shutdown'' world1) = Exited 1 \<and>
   events_of (Fatal (Some 0) ''shutdown'') world1 =
     [TracerStart (Tracer ''svc'') ''op'' \<lparr>spanTraceID = ''0'', spanSpanID = ''0''\<rparr>,
      ZapWrite ''fatal'' ''shutdown''
        [ZapString ''trace_id'' ''0'', ZapString ''span_id'' ''0'', ZapString ''job'' ''job'',
         ZapString ''service'' ''svc'', ZapString ''level'' ''fatal'']]"
  by code_simp

text \<open>
  C6. A panic in a scope guarded by the panic guard, as installed by the request
  middleware, is converted into exactly one error-severity emission plus an abort with
  status 500, and is not propagated further. The closure that \<^verbatim>\<open>RecoverPanic\<close>
  returns does that when it is run with a panic in flight
  (\<open>RecoverPanic_closure_converts\<close>), and does nothing without one
  (\<open>RecoverPanic_no_panic\<close>); but the middleware writes
  \<^verbatim>\<open>defer logger.RecoverPanic(c)\<close>, which defers the call that builds the closure, and
  the closure is never run. Evaluated: a handler chain that panics with \<open>boom\<close>; the
  middleware ends its root span and the panic goes on to the caller, with no write
  to zap and no abort.
\<close>

theorem middleware_panic_not_recovered:
  "fst (Middleware ''api'' panicking_handler request0 world0) = Panicked (PanicValue (AnyString ''boom'')) \<and>
   events_of (Middleware ''api'' panicking_handler request0) world0 =
     [TracerStart (Tracer ''svc'') ''GET /orders/:id'' \<lparr>spanTraceID = ''0'', spanSpanID = ''0''\<rparr>,
      SpanEnd \<lparr>spanTraceID = ''0'', spanSpanID = ''0''\<rparr>]"
  by code_simp

text \<open>
  C7. For every emission, the field list forwarded to the structured-log backend is
  ordered as: trace ID, span ID, job name, service name, severity, followed by all
  caller-set fields in their insertion order (not sorted). Here: on an allocated
  logger, after any sequence of \<^verbatim>\<open>WithField\<close> calls, an emission at any severity makes
  exactly one write to zap, and its field list is the five fixed fields, then the fields
  the logger already had, then one field per call in the order of the calls.
\<close>

theorem log_field_order:
  assumes "a < length (heap w)"
  shows "\<exists>sp. span (heap (snd (and_then (WithField_calls (Some a) kvs)
                                  (\<lambda>_. emission sev (Some a) msg) w)) ! a) = Some sp \<and>
     filter is_ZapWrite
       (events_of (and_then (WithField_calls (Some a) kvs) (\<lambda>_. emission sev (Some a) msg)) w) =
       [ZapWrite (severity_string sev) msg
          ([ZapString ''trace_id'' (spanTraceID sp),
            ZapString ''span_id'' (spanSpanID sp),
            ZapString ''job'' (JobName (globalCfg w)),
            ZapString ''service'' (ServiceName (globalCfg w)),
            ZapString ''level'' (severity_string sev)]
           @ fields' (heap w ! a)
           @ map (\<lambda>kv. ZapAny (fst kv) (snd kv)) kvs)]"
proof -
  define w1 where "w1 = snd (WithField_calls (Some a) kvs w)"
  note f = WithField_calls_facts [OF assms, of kvs, folded w1_def]
  have a1: "a < length (heap w1)"
    using assms f(2) by simp
  note s = events_of_after_silent [where m = "WithField_calls (Some a) kvs" and w = w and x = "()"
             and f = "\<lambda>_. emission sev (Some a) msg",
             OF WithField_calls_facts(1) [OF assms] WithField_calls_facts(3) [OF assms]]
  have seq: "and_then (WithField_calls (Some a) kvs) (\<lambda>_. emission sev (Some a) msg) w
             = emission sev (Some a) msg w1"
    using s(2) by (simp add: w1_def)
  have ev: "events_of (and_then (WithField_calls (Some a) kvs) (\<lambda>_. emission sev (Some a) msg)) w
             = events_of (emission sev (Some a) msg) w1"
    using s(1) by (simp add: w1_def)
  show ?thesis
    unfolding seq ev
    by (rule exI [of _ "log_span (heap w1 ! a) w1"])
       (simp add: emission_heap_alloc [OF a1] emission_events_alloc [OF a1] log_fields_def f)
qed

text \<open>At the logger of \<open>world1\<close>, with two fields attached out of key order.\<close>

theorem log_field_order_witness:
  "0 < length (heap world1) \<and>
   (\<exists>sp. span (heap (snd (and_then (WithField_calls (Some 0) [(''order_id'', AnyInt 123), (''a'', AnyString ''x'')])
                                  (\<lambda>_. emission SevInfo (Some 0) ''received'') world1)) ! 0) = Some sp \<and>
     filter is_ZapWrite
       (events_of (and_then (WithField_calls (Some 0) [(''order_id'', AnyInt 123), (''a'', AnyString ''x'')])
           (\<lambda>_. emission SevInfo (Some 0) ''received'')) world1) =
       [ZapWrite (severity_string SevInfo) ''received''
          ([ZapString ''trace_id'' (spanTraceID sp),
            ZapString ''span_id'' (spanSpanID sp),
            ZapString ''job'' (JobName (globalCfg world1)),
            ZapString ''service'' (ServiceName (globalCfg world1)),
            ZapString ''level'' (severity_string SevInfo)]
           @ fields' (heap world1 ! 0)
           @ map (\<lambda>kv. ZapAny (fst kv) (snd kv)) [(''order_id'', AnyInt 123), (''a'', AnyString ''x'')])])"
proof -
  have h: "0 < length (heap world1)" by code_simp
  from log_field_order [OF h] h show ?thesis by blast
qed

text \<open>
  C8. When remote export (Loki) is disabled in the configuration, no emission at any
  severity on any logger ever causes a call into the export queue. Here: with
  \<^verbatim>\<open>EnableLoki\<close> false, an emission through any pointer (allocated or not) in any
  world enqueues nothing, and leaves the configuration as it was, so the same holds for
  whatever is emitted next.
\<close>

theorem export_disabled_no_enqueue:
  assumes "\<not> EnableLoki (globalCfg w)"
  shows "filter is_LokiEnqueue (events_of (emission sev l msg) w) = [] \<and>
         globalCfg (snd (emission sev l msg w)) = globalCfg w"
proof (cases "\<exists>a. l = Some a \<and> a < length (heap w)")
  case True
  then obtain a where l: "l = Some a" and a: "a < length (heap w)" by blast
  show ?thesis
    using assms unfolding l
    by (simp add: emission_events_alloc [OF a] emission_heap_alloc [OF a])
next
  case False
  then have u: "l = None \<or> (\<exists>a. l = Some a \<and> \<not> a < length (heap w))"
    by (cases l) auto
  show ?thesis
    by (simp add: emission_events_unallocated [OF u] emission_eq_log log_unallocated [OF u])
qed

text \<open>At the logger of \<open>world1\<close> with export switched off: six calls, none to the queue.\<close>

theorem export_disabled_no_enqueue_witness:
  "\<not> EnableLoki (globalCfg (world1\<lparr>globalCfg := cfg0\<lparr>EnableLoki := False\<rparr>\<rparr>)) \<and>
   filter is_LokiEnqueue
     (events_of (emission SevError (Some 0) ''failed'') (world1\<lparr>globalCfg := cfg0\<lparr>EnableLoki := False\<rparr>\<rparr>)) = [] \<and>
   length (events_of (emission SevError (Some 0) ''failed'') (world1\<lparr>globalCfg := cfg0\<lparr>EnableLoki := False\<rparr>\<rparr>)) = 6"
proof -
  have h: "\<not> EnableLoki (globalCfg (world1\<lparr>globalCfg := cfg0\<lparr>EnableLoki := False\<rparr>\<rparr>))"
    by code_simp
  have n: "length (events_of (emission SevError (Some 0) ''failed'') (world1\<lparr>globalCfg := cfg0\<lparr>EnableLoki := False\<rparr>\<rparr>)) = 6"
    by code_simp
  from export_disabled_no_enqueue [OF h] h n show ?thesis by blast
qed

text \<open>
  C9, as amended. \<^verbatim>\<open>Inject\<close> stores the logger it is given under the private key.
  \<^verbatim>\<open>FromContext\<close> returns the stored logger when the stored value is a non-nil
  \<^verbatim>\<open>*Eotel\<close>, and changes nothing; when nothing is stored, or a nil \<^verbatim>\<open>Logger\<close>, or a
  \<^verbatim>\<open>Logger\<close> of another implementation, it returns what \<^verbatim>\<open>New\<close> returns: a pointer to
  a freshly allocated logger with the default settings, which is usable. (A nil
  \<^verbatim>\<open>*Eotel\<close> stored inside a non-nil interface value is handed back as it is,
  \<open>nil_Eotel_returned_as_stored\<close>; the statement says nothing about that case.)
\<close>

theorem FromContext_resolves:
  "ctxLogger (Inject l' c lg) = lg \<and>
   (ctxLogger c = EotelPtr (Some a) \<longrightarrow> FromContext l c nm w = (Returned (Some a), w)) \<and>
   (ctxLogger c = NilLogger \<or> ctxLogger c = OtherLogger i \<longrightarrow>
      FromContext l c nm w = New c nm w) \<and>
   New c nm w =
     (Returned (Some (length (heap w))),
      w\<lparr>heap := heap w @
         [\<lparr>ctx = c, logger = ZapL, tracer = Tracer (ServiceName (globalCfg w)),
           meter = Meter (ServiceName (globalCfg w)), span = None,
           logCounter = Some (Int64Counter (Meter (ServiceName (globalCfg w))) ''log_total''),
           durationHist = Some (Float64Histogram (Meter (ServiceName (globalCfg w))) ''log_duration_ms''),
           fields' = [], attrs = [], err = None, name = nm, start = clock w,
           exporter = DefaultExporter\<rparr>]\<rparr>) \<and>
   usable (Some (length (heap w))) (snd (New c nm w))"
  by (auto simp: Inject_def FromContext_def New_def initMetrics_def alloc_def ret_def usable_def
        Let_def)

text \<open>Both branches at concrete contexts: the logger of \<open>world1\<close> injected, and nothing injected.\<close>

theorem FromContext_resolves_witness:
  "ctxLogger (Inject None background (EotelPtr (Some 0))) = EotelPtr (Some 0) \<and>
   FromContext None (Inject None background (EotelPtr (Some 0))) ''handler'' world1 = (Returned (Some 0), world1) \<and>
   ctxLogger background = NilLogger \<and>
   FromContext None background ''handler'' world1 = New background ''handler'' world1 \<and>
   usable (Some (length (heap world1))) (snd (New background ''handler'' world1))"
proof -
  note t = FromContext_resolves [where l' = None and c = "Inject None background (EotelPtr (Some 0))"
             and lg = "EotelPtr (Some 0)" and a = 0 and l = None and nm = "''handler''"
             and w = world1 and i = 0]
  note u = FromContext_resolves [where l' = None and c = background
             and lg = "EotelPtr (Some 0)" and a = 0 and l = None and nm = "''handler''"
             and w = world1 and i = 0]
  have h1: "ctxLogger (Inject None background (EotelPtr (Some 0))) = EotelPtr (Some 0)"
    by code_simp
  have h2: "ctxLogger background = NilLogger" by code_simp
  from t u h1 h2 show ?thesis by blast
qed

text \<open>
  C9 as stated fails: a \<^verbatim>\<open>Logger\<close> of another implementation, stored by
  \<^verbatim>\<open>Inject\<close>, is present under the key, and \<^verbatim>\<open>FromContext\<close> returns a new
  \<^verbatim>\<open>*Eotel\<close> instead of it.
\<close>

theorem other_logger_not_returned_counterexample:
  "ctxLogger (Inject None background (OtherLogger 7)) = OtherLogger 7 \<and>
   FromContext None (Inject None background (OtherLogger 7)) ''handler'' world1 =
     (Returned (Some 1),
      world1\<lparr>heap := [logger0,
         \<lparr>ctx = Inject None background (OtherLogger 7), logger = ZapL, tracer = Tracer ''svc'',
           meter = Meter ''svc'', span = None,
           logCounter = Some (Int64Counter (Meter ''svc'') ''log_total''),
           durationHist = Some (Float64Histogram (Meter ''svc'') ''log_duration_ms''),
           fields' = [], attrs = [], err = None, name = ''handler'', start = 0,
           exporter = DefaultExporter\<rparr>]\<rparr>)"
  by code_simp

text \<open>
  C10. \<^verbatim>\<open>WithField\<close>, \<^verbatim>\<open>WithFields\<close> and \<^verbatim>\<open>WithError\<close> return the pointer they
  were called on, and the logger behind it is changed in place: \<^verbatim>\<open>WithField\<close> appends
  one entry to the field list and one stringified entry to the attribute buffer,
  \<^verbatim>\<open>WithFields\<close> does so for each entry, \<^verbatim>\<open>WithError\<close> with a non-nil error also
  sets the recorded error (and reports it), with a nil error it changes nothing; every
  other field of the logger, every other logger, and (but for the report) the rest of
  the world stay as they were. An attached field is in the field list of every write
  made by the emissions that follow on that logger.
\<close>

theorem with_methods_mutate_in_place:
  assumes "a < length (heap w)"
  shows "WithField (Some a) k v w =
           (Returned (Some a),
            w\<lparr>heap := (heap w)[a := (heap w ! a)
                \<lparr>fields' := fields' (heap w ! a) @ [ZapAny k v],
                 attrs := attrs (heap w ! a) @ [KeyValue k (AttrString (fmt_v v))]\<rparr>]\<rparr>) \<and>
         WithFields (Some a) kvs w =
           (Returned (Some a),
            w\<lparr>heap := (heap w)[a := (heap w ! a)
                \<lparr>fields' := fields' (heap w ! a) @ map (\<lambda>kv. ZapAny (fst kv) (snd kv)) kvs,
                 attrs := attrs (heap w ! a)
                            @ map (\<lambda>kv. KeyValue (fst kv) (AttrString (fmt_v (snd kv)))) kvs\<rparr>]\<rparr>) \<and>
         WithError (Some a) (Some x) w =
           (Returned (Some a),
            w\<lparr>heap := (heap w)[a := (heap w ! a)
                \<lparr>err := Some x,
                 fields' := fields' (heap w ! a) @ [ZapError x],
                 attrs := attrs (heap w ! a) @ [KeyValue ''error'' (AttrString x)]\<rparr>],
              trace := trace w @ [SentryCapture x [] [(''error'', AnyString x)]]\<rparr>) \<and>
         WithError (Some a) None w = (Returned (Some a), w) \<and>
         (\<forall>lvl m fs.
            ZapWrite lvl m fs \<in>
              set (events_of (and_then (WithField (Some a) k v) (\<lambda>l. emissions l es)) w)
            \<longrightarrow> ZapAny k v \<in> set fs)"
proof -
  let ?w1 = "w\<lparr>heap := (heap w)[a := (heap w ! a)
                \<lparr>fields' := fields' (heap w ! a) @ [ZapAny k v],
                 attrs := attrs (heap w ! a) @ [KeyValue k (AttrString (fmt_v v))]\<rparr>]\<rparr>"
  have run: "WithField (Some a) k v w = (Returned (Some a), ?w1)"
    by (rule WithField_alloc [OF assms])
  have ev: "events_of (and_then (WithField (Some a) k v) (\<lambda>l. emissions l es)) w
            = events_of (emissions (Some a) es) ?w1"
    by (simp add: events_of_def and_then_def [of "WithField (Some a) k v"] run)
  have a1: "a < length (heap ?w1)" and f1: "ZapAny k v \<in> set (fields' (heap ?w1 ! a))"
    using assms by simp_all
  have persist: "\<forall>lvl m fs.
            ZapWrite lvl m fs \<in>
              set (events_of (and_then (WithField (Some a) k v) (\<lambda>l. emissions l es)) w)
            \<longrightarrow> ZapAny k v \<in> set fs"
    unfolding ev using emissions_writes_carry_field [OF a1 f1] by blast
  from run WithFields_alloc [OF assms] WithError_alloc [OF assms] WithError_nil persist
  show ?thesis by blast
qed

text \<open>At the logger of \<open>world1\<close>: one field attached, then two emissions, both carrying it.\<close>

theorem with_methods_mutate_in_place_witness:
  "0 < length (heap world1) \<and>
   WithField (Some 0) ''order_id'' (AnyInt 123) world1 =
     (Returned (Some 0),
      world1\<lparr>heap := (heap world1)[0 := (heap world1 ! 0)
          \<lparr>fields' := fields' (heap world1 ! 0) @ [ZapAny ''order_id'' (AnyInt 123)],
           attrs := attrs (heap world1 ! 0) @ [KeyValue ''order_id'' (AttrString (fmt_v (AnyInt 123)))]\<rparr>]\<rparr>) \<and>
   length (filter is_ZapWrite
     (events_of (and_then (WithField (Some 0) ''order_id'' (AnyInt 123))
                          (\<lambda>l. emissions l [(SevInfo, ''received''), (SevWarn, ''slow'')])) world1)) = 2 \<and>
   list_all (\<lambda>ev. \<forall>lvl m fs. ev = ZapWrite lvl m fs \<longrightarrow> ZapAny ''order_id'' (AnyInt 123) \<in> set fs)
     (events_of (and_then (WithField (Some 0) ''order_id'' (AnyInt 123))
                          (\<lambda>l. emissions l [(SevInfo, ''received''), (SevWarn, ''slow'')])) world1)"
proof -
  have h: "0 < length (heap world1)" by code_simp
  have n: "length (filter is_ZapWrite
     (events_of (and_then (WithField (Some 0) ''order_id'' (AnyInt 123))
                          (\<lambda>l. emissions l [(SevInfo, ''received''), (SevWarn, ''slow'')])) world1)) = 2"
    by code_simp
  note t = with_methods_mutate_in_place [OF h, of "''order_id''" "AnyInt 123" "[]" "''e''"
             "[(SevInfo, ''received''), (SevWarn, ''slow'')]"]
  from t have p: "list_all (\<lambda>ev. \<forall>lvl m fs. ev = ZapWrite lvl m fs \<longrightarrow> ZapAny ''order_id'' (AnyInt 123) \<in> set fs)
     (events_of (and_then (WithField (Some 0) ''order_id'' (AnyInt 123))
                          (\<lambda>l. emissions l [(SevInfo, ''received''), (SevWarn, ''slow'')])) world1)"
    unfolding list_all_iff by blast
  from t h n p show ?thesis by blast
qed

end
